theory Spec2Isabelle
  imports Complex_Main
begin

section \<open>QEMUController: a shallow embedding\<close>

text \<open>
  The controller of \<^verbatim>\<open>src/QEMUController.py\<close> shells out to \<^verbatim>\<open>virsh\<close>,
  \<^verbatim>\<open>pgrep\<close> and the QEMU binary, sends signals and sleeps. The embedding threads an
  explicit state through every method: the hidden state of the host (\<open>world\<close>), the
  wall clock (\<open>now\<close>, in seconds) and the list of actions the controller has issued so
  far (\<open>trace\<close>, oldest first). What the host answers is a parameter (\<open>env\<close>), so a
  theorem about the controller holds for every behaviour of the external commands.

  Modelling decisions:
  \<^item> a character is a code point below 256 (ASCII and Latin-1), and text is a list of
    them; whitespace, line breaks, lower-casing and decimal digits are those of Python's
    \<^verbatim>\<open>str\<close> on these code points; text with a higher code point is outside the
    model;
  \<^item> a spawned process is summarised by what \<^verbatim>\<open>communicate()\<close> and \<^verbatim>\<open>wait()\<close>
    return for it; \<open>stdout = None\<close> stands for bytes on which \<^verbatim>\<open>decode()\<close> raises;
  \<^item> the clock never runs backwards: an operation takes its nominal duration plus the
    overrun \<open>delay\<close> the host reports (in milliseconds);
  \<^item> logging has no effect and is left out.
\<close>

subsection \<open>Data model\<close>

datatype vm_status = Running | Stopped | Unknown

datatype vm_type = Qemu | Libvirt

text \<open>An entry of the lists returned by \<^verbatim>\<open>get_vms\<close>: \<^verbatim>\<open>{"name": .., "status": ..}\<close>.\<close>

record vm =
  vm_name :: string
  vm_state :: vm_status

text \<open>The dictionary returned by \<^verbatim>\<open>get_vm_status\<close>: keys \<^verbatim>\<open>status\<close>, \<^verbatim>\<open>type\<close>, \<^verbatim>\<open>uri\<close>.\<close>

record status_result =
  r_status :: vm_status
  r_type :: "vm_type option"
  r_uri :: "string option"

text \<open>
  The dictionary returned by \<^verbatim>\<open>get_vms\<close>: key \<^verbatim>\<open>qemu\<close> holds a list, key
  \<^verbatim>\<open>libvirt\<close> a dictionary from URI to list, kept here in insertion order.
\<close>

record inventory =
  inv_qemu :: "vm list"
  inv_libvirt :: "(string \<times> vm list) list"

text \<open>The fields of the controller object set by \<^verbatim>\<open>__init__\<close>.\<close>

record controller =
  flatpak :: bool
  qemu_bin_path :: string
  libvirt_available :: bool
  libvirt_uri :: "string option"
  default_uri :: "string option"

text \<open>A value of the \<^verbatim>\<open>vm_config\<close> dictionary.\<close>

datatype cfg_value = VBool bool | VStr string

subsection \<open>The host\<close>

record proc =
  exit_code :: int
  stdout :: "string option"

datatype signal = SIGTERM | SIGKILL

datatype event = Spawn "string list" | Kill int signal | Sleep rat

record 'w env =
  exec :: "string list \<Rightarrow> 'w \<Rightarrow> proc option \<times> 'w"
  os_kill :: "int \<Rightarrow> signal \<Rightarrow> 'w \<Rightarrow> bool \<times> 'w"
  idle :: "rat \<Rightarrow> 'w \<Rightarrow> 'w"
  delay :: "'w \<Rightarrow> nat"

record 'w state =
  world :: 'w
  now :: rat
  trace :: "event list"

definition advance :: "'w env \<Rightarrow> rat \<Rightarrow> event \<Rightarrow> 'w \<Rightarrow> 'w state \<Rightarrow> 'w state" where
  "advance E d e w s =
     \<lparr>world = w, now = now s + d + of_nat (delay E w) / 1000, trace = trace s @ [e]\<rparr>"

text \<open>
  \<^verbatim>\<open>_run_command\<close>: under Flatpak the command is prefixed with
  \<^verbatim>\<open>flatpak-spawn --host\<close>; the result is \<open>None\<close> when \<^verbatim>\<open>Popen\<close> raises.
\<close>

definition host_argv :: "controller \<Rightarrow> string list \<Rightarrow> string list" where
  "host_argv C command =
     (if flatpak C then ''flatpak-spawn'' # ''--host'' # command else command)"

definition run_command ::
  "controller \<Rightarrow> 'w env \<Rightarrow> string list \<Rightarrow> 'w state \<Rightarrow> proc option \<times> 'w state" where
  "run_command C E command s =
     (case exec E (host_argv C command) (world s) of
        (p, w) \<Rightarrow> (p, advance E 0 (Spawn (host_argv C command)) w s))"

text \<open>\<^verbatim>\<open>os.kill(pid, sig)\<close>: \<open>False\<close> when the call raises.\<close>

definition kill :: "'w env \<Rightarrow> int \<Rightarrow> signal \<Rightarrow> 'w state \<Rightarrow> bool \<times> 'w state" where
  "kill E pid sig s =
     (case os_kill E pid sig (world s) of
        (ok, w) \<Rightarrow> (ok, advance E 0 (Kill pid sig) w s))"

text \<open>\<^verbatim>\<open>time.sleep(d)\<close>.\<close>

definition sleep :: "'w env \<Rightarrow> rat \<Rightarrow> 'w state \<Rightarrow> 'w state" where
  "sleep E d s = advance E d (Sleep d) (idle E d (world s)) s"

subsection \<open>Python's string methods\<close>

text \<open>
  \<^verbatim>\<open>str.isspace()\<close> on one character: tab to carriage return, the four separators
  \<^verbatim>\<open>0x1C\<close> to \<^verbatim>\<open>0x1F\<close>, the space, the next-line control \<^verbatim>\<open>0x85\<close> and the
  no-break space \<^verbatim>\<open>0xA0\<close>. These are what \<^verbatim>\<open>str.strip()\<close> removes.
\<close>

definition is_space :: "char \<Rightarrow> bool" where
  "is_space c = (c \<in> set [CHR 0x09, CHR 0x0A, CHR 0x0B, CHR 0x0C, CHR 0x0D,
                          CHR 0x1C, CHR 0x1D, CHR 0x1E, CHR 0x1F, CHR 0x20,
                          CHR 0x85, CHR 0xA0])"

definition py_strip :: "string \<Rightarrow> string" where
  "py_strip s = rev (dropWhile is_space (rev (dropWhile is_space s)))"

text \<open>
  \<^verbatim>\<open>str.lower()\<close> on one character: the letters \<^verbatim>\<open>A\<close> to \<^verbatim>\<open>Z\<close> and the
  capital letters of Latin-1, \<^verbatim>\<open>0xC0\<close> to \<^verbatim>\<open>0xDE\<close> without the multiplication
  sign \<^verbatim>\<open>0xD7\<close>, move up by 32; every other character stays.
\<close>

definition upper_latin1 :: string where
  "upper_latin1 =
       [CHR 0xC0, CHR 0xC1, CHR 0xC2, CHR 0xC3, CHR 0xC4, CHR 0xC5, CHR 0xC6, CHR 0xC7,
        CHR 0xC8, CHR 0xC9, CHR 0xCA, CHR 0xCB, CHR 0xCC, CHR 0xCD, CHR 0xCE, CHR 0xCF,
        CHR 0xD0, CHR 0xD1, CHR 0xD2, CHR 0xD3, CHR 0xD4, CHR 0xD5, CHR 0xD6, CHR 0xD8,
        CHR 0xD9, CHR 0xDA, CHR 0xDB, CHR 0xDC, CHR 0xDD, CHR 0xDE]"

definition lower_latin1 :: string where
  "lower_latin1 =
       [CHR 0xE0, CHR 0xE1, CHR 0xE2, CHR 0xE3, CHR 0xE4, CHR 0xE5, CHR 0xE6, CHR 0xE7,
        CHR 0xE8, CHR 0xE9, CHR 0xEA, CHR 0xEB, CHR 0xEC, CHR 0xED, CHR 0xEE, CHR 0xEF,
        CHR 0xF0, CHR 0xF1, CHR 0xF2, CHR 0xF3, CHR 0xF4, CHR 0xF5, CHR 0xF6, CHR 0xF8,
        CHR 0xF9, CHR 0xFA, CHR 0xFB, CHR 0xFC, CHR 0xFD, CHR 0xFE]"

definition lower_char :: "char \<Rightarrow> char" where
  "lower_char c =
     (case map_of (zip (''ABCDEFGHIJKLMNOPQRSTUVWXYZ'' @ upper_latin1)
                       (''abcdefghijklmnopqrstuvwxyz'' @ lower_latin1)) c of
        Some l \<Rightarrow> l
      | None \<Rightarrow> c)"

definition py_lower :: "string \<Rightarrow> string" where
  "py_lower s = map lower_char s"

text \<open>
  The characters at which \<^verbatim>\<open>str.splitlines()\<close> breaks a line: line feed, vertical
  tab, form feed, carriage return, the separators \<^verbatim>\<open>0x1C\<close> to \<^verbatim>\<open>0x1E\<close> and the
  next-line control \<^verbatim>\<open>0x85\<close>.
\<close>

definition is_linebreak :: "char \<Rightarrow> bool" where
  "is_linebreak c = (c \<in> set [CHR 0x0A, CHR 0x0B, CHR 0x0C, CHR 0x0D,
                              CHR 0x1C, CHR 0x1D, CHR 0x1E, CHR 0x85])"

text \<open>
  \<^verbatim>\<open>str.splitlines()\<close>: \<open>cur\<close> is the line read so far. A carriage return followed
  by a line feed is one break; no empty line is added after a final break.
\<close>

fun splitlines_from :: "string \<Rightarrow> string \<Rightarrow> string list" where
  "splitlines_from cur [] = (if cur = [] then [] else [cur])"
| "splitlines_from cur [c] =
     (if is_linebreak c then [cur] else [cur @ [c]])"
| "splitlines_from cur (c # d # cs) =
     (if c = CHR 0x0D \<and> d = CHR 0x0A then cur # splitlines_from [] cs
      else if is_linebreak c then cur # splitlines_from [] (d # cs)
      else splitlines_from (cur @ [c]) (d # cs))"

definition splitlines :: "string \<Rightarrow> string list" where
  "splitlines s = splitlines_from [] s"

text \<open>
  \<^verbatim>\<open>int(s)\<close>: surrounding whitespace is dropped, a sign may lead, and the digits
  may be grouped by single underscores. Below code point 256 the decimal digits are
  \<^verbatim>\<open>0\<close> to \<^verbatim>\<open>9\<close> only. A literal of more than 4300 digits, leading zeros
  counted and underscores not, is refused: the default limit of the interpreter since
  Python 3.11. \<open>None\<close> stands for \<^verbatim>\<open>ValueError\<close>.
\<close>

definition is_digit :: "char \<Rightarrow> bool" where
  "is_digit c = (c \<in> set ''0123456789'')"

definition digit_val :: "char \<Rightarrow> int" where
  "digit_val c =
     (case map_of (zip ''0123456789'' [0, 1, 2, 3, 4, 5, 6, 7, 8, 9]) c of
        Some v \<Rightarrow> v
      | None \<Rightarrow> 0)"

fun digits_ok :: "string \<Rightarrow> bool" where
  "digits_ok [] = False"
| "digits_ok [c] = is_digit c"
| "digits_ok (c # d # cs) =
     (is_digit c \<and> (if d = CHR ''_'' then digits_ok cs else digits_ok (d # cs)))"

definition max_str_digits :: nat where
  "max_str_digits = 4300"

definition literal_ok :: "string \<Rightarrow> bool" where
  "literal_ok ds = (digits_ok ds \<and> length (filter is_digit ds) \<le> max_str_digits)"

definition digits_val :: "string \<Rightarrow> int" where
  "digits_val ds = foldl (\<lambda>acc c. 10 * acc + digit_val c) 0 (filter is_digit ds)"

definition py_int :: "string \<Rightarrow> int option" where
  "py_int s =
     (case py_strip s of
        [] \<Rightarrow> None
      | c # cs \<Rightarrow>
          if c = CHR ''-'' then (if literal_ok cs then Some (- digits_val cs) else None)
          else if c = CHR ''+'' then (if literal_ok cs then Some (digits_val cs) else None)
          else if literal_ok (c # cs) then Some (digits_val (c # cs)) else None)"

subsection \<open>The guest-name pattern\<close>

text \<open>
  The pattern of the \<^verbatim>\<open>re.search\<close> call in \<^verbatim>\<open>get_vms\<close> is a raw string in which
  two backslashes stand before \<^verbatim>\<open>s+\<close>. In a regular expression two backslashes are
  one escaped backslash, so the pattern matches the text \<^verbatim>\<open>-name\<close>, one backslash
  character, one or more letters \<^verbatim>\<open>s\<close>, the text \<^verbatim>\<open>guest=\<close> and then the longest
  non-empty run of characters other than a comma, which is group 1. The letter after the
  run of \<^verbatim>\<open>s\<close> must be \<^verbatim>\<open>g\<close>, so the run is always taken whole.
\<close>

definition backslash :: char where
  "backslash = CHR 0x5C"

fun after_prefix :: "string \<Rightarrow> string \<Rightarrow> string option" where
  "after_prefix [] s = Some s"
| "after_prefix (p # ps) [] = None"
| "after_prefix (p # ps) (c # cs) = (if p = c then after_prefix ps cs else None)"

text \<open>The pattern matched at the start of the text; the result is group 1.\<close>

definition match_guest :: "string \<Rightarrow> string option" where
  "match_guest s =
     (case after_prefix (''-name'' @ [backslash]) s of
        None \<Rightarrow> None
      | Some r \<Rightarrow>
          if takeWhile (\<lambda>c. c = CHR ''s'') r = [] then None
          else
            (case after_prefix ''guest='' (dropWhile (\<lambda>c. c = CHR ''s'') r) of
               None \<Rightarrow> None
             | Some v \<Rightarrow>
                 if takeWhile (\<lambda>c. c \<noteq> CHR '','') v = [] then None
                 else Some (takeWhile (\<lambda>c. c \<noteq> CHR '','') v)))"

text \<open>\<^verbatim>\<open>re.search\<close>: the leftmost position at which the pattern matches.\<close>

fun search_guest :: "string \<Rightarrow> string option" where
  "search_guest [] = match_guest []"
| "search_guest (c # cs) =
     (case match_guest (c # cs) of
        Some g \<Rightarrow> Some g
      | None \<Rightarrow> search_guest cs)"

subsection \<open>get_vm_status\<close>

definition get_vm_status ::
  "controller \<Rightarrow> 'w env \<Rightarrow> string \<Rightarrow> string \<Rightarrow> 'w state \<Rightarrow> status_result \<times> 'w state" where
  "get_vm_status C E nm uri s =
     (if uri = ''qemu'' then
        (case run_command C E [''pgrep'', ''-f'', ''qemu.*'' @ nm] s of
           (None, s1) \<Rightarrow> (\<lparr>r_status = Unknown, r_type = Some Qemu, r_uri = None\<rparr>, s1)
         | (Some p, s1) \<Rightarrow>
             if exit_code p = 0
             then (\<lparr>r_status = Running, r_type = Some Qemu, r_uri = None\<rparr>, s1)
             else (\<lparr>r_status = Stopped, r_type = Some Qemu, r_uri = None\<rparr>, s1))
      else if libvirt_available C \<and> uri \<noteq> ''qemu'' then
        (case run_command C E [''virsh'', ''-c'', uri, ''domstate'', nm] s of
           (None, s1) \<Rightarrow> (\<lparr>r_status = Unknown, r_type = Some Libvirt, r_uri = Some uri\<rparr>, s1)
         | (Some p, s1) \<Rightarrow>
             if exit_code p = 0 then
               (case stdout p of
                  None \<Rightarrow> (\<lparr>r_status = Unknown, r_type = Some Libvirt, r_uri = Some uri\<rparr>, s1)
                | Some out \<Rightarrow>
                    if py_lower (py_strip out) = ''running''
                    then (\<lparr>r_status = Running, r_type = Some Libvirt, r_uri = Some uri\<rparr>, s1)
                    else if py_lower (py_strip out) \<in>
                              set [''shut off'', ''inactive'', ''paused'', ''suspended'']
                    then (\<lparr>r_status = Stopped, r_type = Some Libvirt, r_uri = Some uri\<rparr>, s1)
                    else (\<lparr>r_status = Unknown, r_type = Some Libvirt, r_uri = Some uri\<rparr>, s1))
             else (\<lparr>r_status = Unknown, r_type = Some Libvirt, r_uri = Some uri\<rparr>, s1))
      else (\<lparr>r_status = Unknown, r_type = None, r_uri = None\<rparr>, s))"

subsection \<open>get_vms\<close>

text \<open>Assignment to a key of a dictionary that keeps insertion order.\<close>

fun dict_set :: "'k \<Rightarrow> 'v \<Rightarrow> ('k \<times> 'v) list \<Rightarrow> ('k \<times> 'v) list" where
  "dict_set k v [] = [(k, v)]"
| "dict_set k v ((k', v') # d) =
     (if k = k' then (k, v) # d else (k', v') # dict_set k v d)"

text \<open>\<^verbatim>\<open>a or b\<close> on optional strings: \<open>None\<close> and the empty string are falsy.\<close>

definition py_or :: "string option \<Rightarrow> string option \<Rightarrow> string option" where
  "py_or a b = (case a of None \<Rightarrow> b | Some x \<Rightarrow> if x = [] then b else Some x)"

definition get_all_connections :: "controller \<Rightarrow> string list" where
  "get_all_connections C =
     foldl (\<lambda>connections u.
              case u of
                None \<Rightarrow> connections
              | Some uri \<Rightarrow>
                  if uri \<noteq> [] \<and> uri \<notin> set connections then connections @ [uri]
                  else connections)
       [] [Some ''qemu:///system'', Some ''qemu:///session'', default_uri C]"

definition connections :: "controller \<Rightarrow> bool \<Rightarrow> string option list" where
  "connections C show_all_connections =
     (if show_all_connections then map Some (get_all_connections C)
      else [py_or (libvirt_uri C) (default_uri C)])"

text \<open>
  One list sub-command and the entries it contributes. A command that cannot be spawned
  or exits nonzero contributes nothing; \<open>None\<close> is the exception raised by
  \<^verbatim>\<open>decode()\<close>. The names are the lines as printed: only the test strips them.
\<close>

definition virsh_list ::
  "controller \<Rightarrow> 'w env \<Rightarrow> string list \<Rightarrow> vm_status \<Rightarrow> 'w state \<Rightarrow> vm list option \<times> 'w state" where
  "virsh_list C E command st s =
     (case run_command C E command s of
        (None, s1) \<Rightarrow> (Some [], s1)
      | (Some p, s1) \<Rightarrow>
          if exit_code p = 0 then
            (case stdout p of
               None \<Rightarrow> (None, s1)
             | Some out \<Rightarrow>
                 (Some (map (\<lambda>l. \<lparr>vm_name = l, vm_state = st\<rparr>)
                          (filter (\<lambda>l. py_strip l \<noteq> []) (splitlines out))), s1))
          else (Some [], s1))"

text \<open>
  The body of the loop over the connections, for one non-empty URI: the list of the URI
  is reset, then the running and the inactive guests are appended to it. The flag is
  \<open>False\<close> when an exception left the loop; what was stored until then stays.
\<close>

definition list_endpoint ::
  "controller \<Rightarrow> 'w env \<Rightarrow> string \<Rightarrow> (string \<times> vm list) list \<Rightarrow> 'w state
     \<Rightarrow> bool \<times> (string \<times> vm list) list \<times> 'w state" where
  "list_endpoint C E uri m s =
     (case virsh_list C E [''virsh'', ''-c'', uri, ''list'', ''--name''] Running s of
        (None, s1) \<Rightarrow> (False, dict_set uri [] m, s1)
      | (Some running_vms, s1) \<Rightarrow>
          (case virsh_list C E [''virsh'', ''-c'', uri, ''list'', ''--inactive'', ''--name'']
                  Stopped s1 of
             (None, s2) \<Rightarrow> (False, dict_set uri running_vms m, s2)
           | (Some stopped_vms, s2) \<Rightarrow>
               (True, dict_set uri (running_vms @ stopped_vms) m, s2)))"

fun list_endpoints ::
  "controller \<Rightarrow> 'w env \<Rightarrow> string option list \<Rightarrow> (string \<times> vm list) list \<Rightarrow> 'w state
     \<Rightarrow> (string \<times> vm list) list \<times> 'w state" where
  "list_endpoints C E [] m s = (m, s)"
| "list_endpoints C E (None # uris) m s = list_endpoints C E uris m s"
| "list_endpoints C E (Some uri # uris) m s =
     (if uri = [] then list_endpoints C E uris m s
      else
        (case list_endpoint C E uri m s of
           (True, m', s') \<Rightarrow> list_endpoints C E uris m' s'
         | (False, m', s') \<Rightarrow> (m', s')))"

definition libvirt_vm_names :: "(string \<times> vm list) list \<Rightarrow> string set" where
  "libvirt_vm_names m = set (concat (map (\<lambda>(uri, uri_vms). map vm_name uri_vms) m))"

text \<open>The loop over the lines of the process listing; \<open>found\<close> is \<^verbatim>\<open>vms['qemu']\<close>.\<close>

fun scan_lines :: "string set \<Rightarrow> string list \<Rightarrow> vm list \<Rightarrow> vm list" where
  "scan_lines names [] found = found"
| "scan_lines names (line # rest) found =
     (case search_guest line of
        None \<Rightarrow> scan_lines names rest found
      | Some g \<Rightarrow>
          if g \<notin> names
          then scan_lines names rest (found @ [\<lparr>vm_name = g, vm_state = Running\<rparr>])
          else scan_lines names rest found)"

definition get_vms :: "controller \<Rightarrow> 'w env \<Rightarrow> bool \<Rightarrow> 'w state \<Rightarrow> inventory \<times> 'w state" where
  "get_vms C E show_all_connections s =
     (case (if libvirt_available C
            then list_endpoints C E (connections C show_all_connections) [] s
            else ([], s)) of
        (m, s1) \<Rightarrow>
          (case run_command C E [''pgrep'', ''-fa'', ''qemu''] s1 of
             (None, s2) \<Rightarrow> (\<lparr>inv_qemu = [], inv_libvirt = m\<rparr>, s2)
           | (Some p, s2) \<Rightarrow>
               (case stdout p of
                  None \<Rightarrow> (\<lparr>inv_qemu = [], inv_libvirt = m\<rparr>, s2)
                | Some out \<Rightarrow>
                    (\<lparr>inv_qemu = scan_lines (libvirt_vm_names m) (splitlines out) [],
                      inv_libvirt = m\<rparr>, s2))))"

subsection \<open>start_vm\<close>

fun py_str :: "cfg_value \<Rightarrow> string" where
  "py_str (VBool True) = ''True''"
| "py_str (VBool False) = ''False''"
| "py_str (VStr v) = v"

text \<open>The loop over \<^verbatim>\<open>vm_config.items()\<close>, extending \<open>cmd\<close>.\<close>

fun config_args :: "(string \<times> cfg_value) list \<Rightarrow> string list \<Rightarrow> string list" where
  "config_args [] cmd = cmd"
| "config_args ((key, VBool True) # rest) cmd = config_args rest (cmd @ [''-'' @ key])"
| "config_args ((key, v) # rest) cmd = config_args rest (cmd @ [''-'' @ key, py_str v])"

definition start_cmd :: "controller \<Rightarrow> string \<Rightarrow> (string \<times> cfg_value) list option \<Rightarrow> string list" where
  "start_cmd C nm vm_config =
     (case vm_config of
        None \<Rightarrow> [qemu_bin_path C, ''-name'', ''guest='' @ nm]
      | Some cfg \<Rightarrow> config_args cfg [qemu_bin_path C, ''-name'', ''guest='' @ nm])"

text \<open>\<^verbatim>\<open>return self.get_vm_status(vm_name, uri)['status'] == ...\<close> after a sleep.\<close>

definition settle ::
  "controller \<Rightarrow> 'w env \<Rightarrow> string \<Rightarrow> string \<Rightarrow> rat \<Rightarrow> vm_status \<Rightarrow> 'w state \<Rightarrow> bool \<times> 'w state" where
  "settle C E nm uri d expected s =
     (case get_vm_status C E nm uri (sleep E d s) of
        (r, s') \<Rightarrow> (r_status r = expected, s'))"

definition start_vm ::
  "controller \<Rightarrow> 'w env \<Rightarrow> string \<Rightarrow> string \<Rightarrow> (string \<times> cfg_value) list option
     \<Rightarrow> 'w state \<Rightarrow> bool \<times> 'w state" where
  "start_vm C E nm uri vm_config s =
     (case get_vm_status C E nm uri s of
        (status_info, s0) \<Rightarrow>
          if r_status status_info = Running then (True, s0)
          else if uri \<noteq> ''qemu'' \<and> libvirt_available C then
            (case run_command C E [''virsh'', ''-c'', uri, ''start'', nm] s0 of
               (None, s1) \<Rightarrow> (False, s1)
             | (Some p, s1) \<Rightarrow>
                 if exit_code p = 0 then settle C E nm uri 2 Running s1
                 else (False, s1))
          else if uri = ''qemu'' then
            (case run_command C E (start_cmd C nm vm_config) s0 of
               (None, s1) \<Rightarrow> (False, s1)
             | (Some p, s1) \<Rightarrow> settle C E nm uri 2 Running s1)
          else (False, s0))"

subsection \<open>stop_vm\<close>

text \<open>
  The polling loop of the graceful stop, the same text on both paths:
  \<^verbatim>\<open>while time.time() - start_time < timeout\<close>, return on \<open>Stopped\<close>, else sleep one
  second. The flag says whether \<open>Stopped\<close> was seen, that is, whether \<^verbatim>\<open>stop_vm\<close>
  returns \<open>True\<close> from inside the loop.
\<close>

function poll ::
  "controller \<Rightarrow> 'w env \<Rightarrow> string \<Rightarrow> string \<Rightarrow> rat \<Rightarrow> rat \<Rightarrow> 'w state \<Rightarrow> bool \<times> 'w state" where
  "poll C E nm uri start_time timeout s =
     (if now s - start_time < timeout then
        (if r_status (fst (get_vm_status C E nm uri s)) = Stopped
         then (True, snd (get_vm_status C E nm uri s))
         else poll C E nm uri start_time timeout
                (sleep E 1 (snd (get_vm_status C E nm uri s))))
      else (False, s))"
  by pat_completeness auto
termination
proof (relation "measure (\<lambda>(C, E, nm, uri, start_time, timeout, s).
                   nat \<lceil>start_time + timeout - now s\<rceil>)", goal_cases)
  case 1
  show ?case by simp
next
  case (2 C E nm uri start_time timeout s)
  have run: "now s \<le> now (snd (run_command C E cmd s))" for cmd
    by (simp add: run_command_def advance_def split: prod.splits)
  have "now s \<le> now (snd (get_vm_status C E nm uri s))"
    using run [of "[''pgrep'', ''-f'', ''qemu.*'' @ nm]"]
          run [of "[''virsh'', ''-c'', uri, ''domstate'', nm]"]
    by (auto simp: get_vm_status_def split: prod.splits option.splits)
  then have "now s + 1 \<le> now (sleep E 1 (snd (get_vm_status C E nm uri s)))"
    by (simp add: sleep_def advance_def)
  then have "\<lceil>start_time + timeout - now (sleep E 1 (snd (get_vm_status C E nm uri s)))\<rceil>
               \<le> \<lceil>start_time + timeout - now s - 1\<rceil>"
    by (intro ceiling_mono) simp
  moreover have "0 < \<lceil>start_time + timeout - now s\<rceil>"
    using 2 by simp
  ultimately show ?case by simp
qed

text \<open>The management-daemon branch of \<^verbatim>\<open>stop_vm\<close>.\<close>

definition stop_libvirt ::
  "controller \<Rightarrow> 'w env \<Rightarrow> string \<Rightarrow> string \<Rightarrow> bool \<Rightarrow> rat \<Rightarrow> 'w state \<Rightarrow> bool \<times> 'w state" where
  "stop_libvirt C E nm uri force timeout s =
     (case run_command C E
             [''virsh'', ''-c'', uri, if force then ''destroy'' else ''shutdown'', nm] s of
        (None, s1) \<Rightarrow> (False, s1)
      | (Some p, s1) \<Rightarrow>
          if exit_code p \<noteq> 0 then (False, s1)
          else if \<not> force then
            (case poll C E nm uri (now s1) timeout s1 of
               (True, s2) \<Rightarrow> (True, s2)
             | (False, s2) \<Rightarrow>
                 (case get_vm_status C E nm uri s2 of
                    (r, s3) \<Rightarrow>
                      if r_status r = Running
                      then settle C E nm uri (1 / 5) Stopped
                             (snd (run_command C E [''virsh'', ''-c'', uri, ''destroy'', nm] s3))
                      else settle C E nm uri (1 / 5) Stopped s3))
          else settle C E nm uri (1 / 5) Stopped s1)"

text \<open>
  The direct-process branch of \<^verbatim>\<open>stop_vm\<close>. Every exception (\<^verbatim>\<open>decode\<close>,
  \<^verbatim>\<open>int\<close>, \<^verbatim>\<open>os.kill\<close>) ends in the handler that returns \<open>False\<close>.
\<close>

definition stop_qemu ::
  "controller \<Rightarrow> 'w env \<Rightarrow> string \<Rightarrow> string \<Rightarrow> bool \<Rightarrow> rat \<Rightarrow> 'w state \<Rightarrow> bool \<times> 'w state" where
  "stop_qemu C E nm uri force timeout s =
     (case run_command C E [''pgrep'', ''-f'', ''qemu.*'' @ nm] s of
        (None, s1) \<Rightarrow> (False, s1)
      | (Some p, s1) \<Rightarrow>
          if exit_code p \<noteq> 0 then (True, s1)
          else
            (case stdout p of
               None \<Rightarrow> (False, s1)
             | Some out \<Rightarrow>
                 (case py_int (py_strip out) of
                    None \<Rightarrow> (False, s1)
                  | Some pid \<Rightarrow>
                      if force then
                        (case kill E pid SIGKILL s1 of
                           (False, s2) \<Rightarrow> (False, s2)
                         | (True, s2) \<Rightarrow> settle C E nm uri 1 Stopped s2)
                      else
                        (case kill E pid SIGTERM s1 of
                           (False, s2) \<Rightarrow> (False, s2)
                         | (True, s2) \<Rightarrow>
                             (case poll C E nm uri (now s2) timeout s2 of
                                (True, s3) \<Rightarrow> (True, s3)
                              | (False, s3) \<Rightarrow>
                                  (case get_vm_status C E nm uri s3 of
                                     (r, s4) \<Rightarrow>
                                       if r_status r = Running then
                                         (case kill E pid SIGKILL s4 of
                                            (False, s5) \<Rightarrow> (False, s5)
                                          | (True, s5) \<Rightarrow> settle C E nm uri 1 Stopped s5)
                                       else settle C E nm uri 1 Stopped s4))))))"

definition stop_vm ::
  "controller \<Rightarrow> 'w env \<Rightarrow> string \<Rightarrow> string \<Rightarrow> bool \<Rightarrow> rat \<Rightarrow> 'w state \<Rightarrow> bool \<times> 'w state" where
  "stop_vm C E nm uri force timeout s =
     (case get_vm_status C E nm uri s of
        (status_info, s0) \<Rightarrow>
          if r_status status_info = Stopped then (True, s0)
          else if uri \<noteq> ''qemu'' \<and> r_type status_info = Some Libvirt
          then stop_libvirt C E nm uri force timeout s0
          else if uri = ''qemu'' \<and> r_type status_info = Some Qemu
          then stop_qemu C E nm uri force timeout s0
          else (False, s0))"

subsection \<open>Vocabulary of the specification\<close>

text \<open>
  A command has succeeded when it could be spawned and exited with 0: the test
  \<^verbatim>\<open>if process:\<close> followed by \<^verbatim>\<open>if result == 0:\<close> of the source.
\<close>

definition succeeded :: "proc option \<Rightarrow> bool" where
  "succeeded p = (case p of None \<Rightarrow> False | Some pr \<Rightarrow> exit_code pr = 0)"



text \<open>
  The actions a call has issued: what the trace of the state it returns holds after the
  trace of the state it started in.
\<close>

definition issued :: "'w state \<Rightarrow> 'w state \<Rightarrow> event list" where
  "issued s s' = drop (length (trace s)) (trace s')"

text \<open>
  The tokens the specification gives for one entry of the configuration: a bare flag for
  the Boolean true, else the flag and the value as a string, which is the text itself
  for a string and \<^verbatim>\<open>False\<close> for the Boolean false. This follows the words of the
  specification and is written without the functions of the embedding, to be compared
  with \<open>config_args\<close>.
\<close>

fun spec_flag_tokens :: "string \<times> cfg_value \<Rightarrow> string list" where
  "spec_flag_tokens (key, VBool True) = [''-'' @ key]"
| "spec_flag_tokens (key, VBool False) = [''-'' @ key, ''False'']"
| "spec_flag_tokens (key, VStr v) = [''-'' @ key, v]"

text \<open>
  Whitespace and lower-casing by code point, written without the tables of the embedding,
  to be compared with \<open>is_space\<close> and \<open>lower_char\<close>: whitespace is 9 to 13, 28 to 32,
  133 and 160; a capital letter is 65 to 90, or 192 to 222 without 215, and its small
  letter is 32 higher.
\<close>

definition spec_space :: "char \<Rightarrow> bool" where
  "spec_space c =
     (let n = (of_char c :: nat)
      in (9 \<le> n \<and> n \<le> 13) \<or> (28 \<le> n \<and> n \<le> 32) \<or> n = 133 \<or> n = 160)"

definition spec_lower :: "char \<Rightarrow> char" where
  "spec_lower c =
     (let n = (of_char c :: nat)
      in if (65 \<le> n \<and> n \<le> 90) \<or> (192 \<le> n \<and> n \<le> 214) \<or> (216 \<le> n \<and> n \<le> 222)
         then char_of (n + 32) else c)"

text \<open>
  The status mapping of the specification, as a table from the reported state to the
  status; a state that is not in the table is \<open>Unknown\<close>.
\<close>

definition spec_state_table :: "(string \<times> vm_status) list" where
  "spec_state_table =
     [(''running'', Running), (''shut off'', Stopped), (''inactive'', Stopped),
      (''paused'', Stopped), (''suspended'', Stopped)]"

definition spec_status :: "string \<Rightarrow> vm_status" where
  "spec_status st = (case map_of spec_state_table st of Some v \<Rightarrow> v | None \<Rightarrow> Unknown)"

subsection \<open>Concrete hosts\<close>

text \<open>
  A host that answers the commands from a script, in order, whatever the command is, and
  fails to spawn once the script is used up. Signals succeed or raise as \<open>kill_ok\<close>
  says; no operation overruns.
\<close>

definition scripted :: "bool \<Rightarrow> (proc option list) env" where
  "scripted kill_ok =
     \<lparr>exec = (\<lambda>argv w. case w of [] \<Rightarrow> (None, []) | p # ps \<Rightarrow> (p, ps)),
      os_kill = (\<lambda>pid sig w. (kill_ok, w)),
      idle = (\<lambda>d w. w),
      delay = (\<lambda>w. 0)\<rparr>"

text \<open>A host that gives every command the same answer, without end.\<close>

definition steady :: "proc option \<Rightarrow> bool \<Rightarrow> unit env" where
  "steady p kill_ok =
     \<lparr>exec = (\<lambda>argv w. (p, w)),
      os_kill = (\<lambda>pid sig w. (kill_ok, w)),
      idle = (\<lambda>d w. w),
      delay = (\<lambda>w. 0)\<rparr>"


definition exits :: "int \<Rightarrow> string \<Rightarrow> proc option" where
  "exits code out = Some \<lparr>exit_code = code, stdout = Some out\<rparr>"


definition init :: "'w \<Rightarrow> 'w state" where
  "init w = \<lparr>world = w, now = 0, trace = []\<rparr>"

definition plain :: "bool \<Rightarrow> controller" where
  "plain daemon =
     \<lparr>flatpak = False, qemu_bin_path = ''qemu-system-x86_64'', libvirt_available = daemon,
      libvirt_uri = None, default_uri = Some ''qemu:///system''\<rparr>"

section \<open>Properties\<close>

subsection \<open>What a call adds to the trace\<close>

lemma trace_run_command:
  "trace (snd (run_command C E cmd s)) = trace s @ [Spawn (host_argv C cmd)]"
  by (simp add: run_command_def advance_def split: prod.splits)

lemma trace_get_vm_status:
  "trace (snd (get_vm_status C E nm uri s)) =
     trace s @ (if uri = ''qemu'' then [Spawn (host_argv C [''pgrep'', ''-f'', ''qemu.*'' @ nm])]
                else if libvirt_available C
                then [Spawn (host_argv C [''virsh'', ''-c'', uri, ''domstate'', nm])]
                else [])"
  using trace_run_command [of C E "[''pgrep'', ''-f'', ''qemu.*'' @ nm]" s]
        trace_run_command [of C E "[''virsh'', ''-c'', uri, ''domstate'', nm]" s]
  by (auto simp: get_vm_status_def split: prod.splits option.splits)

lemma status_known_query:
  "r_status (fst (get_vm_status C E nm uri s)) \<noteq> Unknown \<Longrightarrow>
     uri = ''qemu'' \<or> libvirt_available C"
  by (auto simp: get_vm_status_def split: prod.splits option.splits if_splits)

subsection \<open>Status query\<close>

text \<open>
  C7. Whatever the external commands do, the result of \<^verbatim>\<open>get_vm_status\<close> has its
  \<^verbatim>\<open>uri\<close> field set exactly when its \<^verbatim>\<open>type\<close> field is \<^verbatim>\<open>libvirt\<close>.
\<close>

theorem get_vm_status_uri_iff_libvirt:
  "(r_uri (fst (get_vm_status C E nm uri s)) \<noteq> None) =
     (r_type (fst (get_vm_status C E nm uri s)) = Some Libvirt)"
  by (auto simp: get_vm_status_def split: prod.splits option.splits)

text \<open>
  What \<open>py_strip\<close> computes: every text is whitespace, a core and whitespace, where the
  core is empty or begins and ends with a character that is not whitespace, and
  \<open>py_strip\<close> gives that core.
\<close>

lemma py_strip_unique:
  assumes pre: "\<forall>c \<in> set pre. is_space c" and post: "\<forall>c \<in> set post. is_space c"
    and core: "core = [] \<or> (\<not> is_space (hd core) \<and> \<not> is_space (last core))"
  shows "py_strip (pre @ core @ post) = core"
proof (cases "core = []")
  case True
  have "\<forall>c \<in> set (pre @ post). is_space c" using pre post by auto
  then have dw: "dropWhile is_space (pre @ post) = []" by (metis dropWhile_eq_Nil_conv)
  show ?thesis unfolding True py_strip_def append_Nil dw by simp
next
  case False
  then have h: "\<not> is_space (hd core)" and l: "\<not> is_space (last core)" using core by auto
  have "dropWhile is_space (pre @ core @ post) = dropWhile is_space (core @ post)"
    using pre by (simp add: dropWhile_append2)
  also have "\<dots> = core @ post" using False h by (cases core) simp_all
  finally have d: "dropWhile is_space (pre @ core @ post) = core @ post" .
  have "dropWhile is_space (rev post @ rev core) = dropWhile is_space (rev core)"
    by (rule dropWhile_append2) (use post in auto)
  also have "\<dots> = rev core" using False l by (cases "rev core") (simp_all add: hd_rev)
  finally show ?thesis by (simp add: py_strip_def d)
qed

lemma py_strip_decomp:
  "\<exists>pre post. s = pre @ py_strip s @ post \<and>
     (\<forall>c \<in> set pre. is_space c) \<and> (\<forall>c \<in> set post. is_space c) \<and>
     (py_strip s = [] \<or> (\<not> is_space (hd (py_strip s)) \<and> \<not> is_space (last (py_strip s))))"
proof -
  define d where "d = dropWhile is_space s"
  define e where "e = dropWhile is_space (rev d)"
  have t: "py_strip s = rev e" by (simp add: py_strip_def d_def e_def)
  have s: "s = takeWhile is_space s @ d" by (simp add: d_def)
  have "rev d = takeWhile is_space (rev d) @ e" by (simp add: e_def)
  then have "rev (rev d) = rev (takeWhile is_space (rev d) @ e)" by simp
  then have d: "d = rev e @ rev (takeWhile is_space (rev d))" by simp
  have trimmed: "\<not> is_space (hd (rev e)) \<and> \<not> is_space (last (rev e))" if ne: "e \<noteq> []"
  proof
    have dne: "d \<noteq> []" using ne by (auto simp: e_def)
    have "hd (rev e) = hd d" using d ne by (metis hd_append2 rev_is_Nil_conv)
    moreover have "\<not> is_space (hd d)" using dne unfolding d_def by (rule hd_dropWhile)
    ultimately show "\<not> is_space (hd (rev e))" by simp
    have "\<not> is_space (hd e)" using ne unfolding e_def by (rule hd_dropWhile)
    then show "\<not> is_space (last (rev e))" using ne by (simp add: last_rev)
  qed
  have "s = takeWhile is_space s @ py_strip s @ rev (takeWhile is_space (rev d))"
    using s d t by simp
  moreover have "\<forall>c \<in> set (takeWhile is_space s). is_space c"
    by (auto dest: set_takeWhileD)
  moreover have "\<forall>c \<in> set (rev (takeWhile is_space (rev d))). is_space c"
    by (auto dest: set_takeWhileD)
  moreover have "py_strip s = [] \<or>
      (\<not> is_space (hd (py_strip s)) \<and> \<not> is_space (last (py_strip s)))"
    using trimmed t by auto
  ultimately show ?thesis by blast
qed

text \<open>
  The tables of the embedding agree with the code points of the specification, for each
  of the 256 characters.
\<close>

lemma all_chars: "(\<forall>c::char. P c) = (\<forall>c \<in> set Enum.enum. P c)"
  by (simp add: UNIV_enum [symmetric])

lemma is_space_spec: "is_space c = spec_space c"
proof -
  have "\<forall>c::char. is_space c = spec_space c"
    unfolding all_chars by code_simp
  then show ?thesis by blast
qed

lemma lower_char_spec: "lower_char c = spec_lower c"
proof -
  have "\<forall>c::char. lower_char c = spec_lower c"
    unfolding all_chars by code_simp
  then show ?thesis by blast
qed

lemma py_strip_core:
  assumes "\<forall>c \<in> set pre. spec_space c" and "\<forall>c \<in> set post. spec_space c"
    and "core = [] \<or> (\<not> spec_space (hd core) \<and> \<not> spec_space (last core))"
  shows "py_strip (pre @ core @ post) = core"
  using assms py_strip_unique [of pre post core] by (simp add: is_space_spec)

text \<open>
  C6, as the code has it. When the domain-state query of a daemon endpoint exits with 0,
  the status is decided by the output with the surrounding whitespace removed and the
  letters lower-cased: for an output that is whitespace, a core and whitespace, the
  status is what the table of the specification gives for the lower-cased core, that is
  \<open>Running\<close> for \<^verbatim>\<open>running\<close>, \<open>Stopped\<close> for each of \<^verbatim>\<open>shut off\<close>,
  \<^verbatim>\<open>inactive\<close>, \<^verbatim>\<open>paused\<close>, \<^verbatim>\<open>suspended\<close>, and \<open>Unknown\<close> for anything else.
  Whitespace and lower-casing are those of the specification, by code point.
\<close>

theorem domstate_mapping_normalised:
  assumes "libvirt_available C" and "uri \<noteq> ''qemu''"
    and "fst (run_command C E [''virsh'', ''-c'', uri, ''domstate'', nm] s) = Some p"
    and "exit_code p = 0" and "stdout p = Some (pre @ core @ post)"
    and "\<forall>c \<in> set pre. spec_space c" and "\<forall>c \<in> set post. spec_space c"
    and "core = [] \<or> (\<not> spec_space (hd core) \<and> \<not> spec_space (last core))"
  shows "r_status (fst (get_vm_status C E nm uri s)) = spec_status (map spec_lower core)"
proof -
  have st: "py_strip (pre @ core @ post) = core" using assms(6-8) by (rule py_strip_core)
  have lo: "py_lower core = map spec_lower core" by (simp add: py_lower_def lower_char_spec)
  show ?thesis
    using assms(1-5)
    by (cases "run_command C E [''virsh'', ''-c'', uri, ''domstate'', nm] s")
       (simp add: get_vm_status_def st lo [symmetric] spec_status_def spec_state_table_def)
qed

theorem domstate_mapping_normalised_witness:
  "libvirt_available (plain True) \<and> ''qemu:///system'' \<noteq> ''qemu'' \<and>
   fst (run_command (plain True) (scripted True)
          [''virsh'', ''-c'', ''qemu:///system'', ''domstate'', ''Fedora39'']
          (init [exits 0 ([CHR 0xA0] @ ''Shut Off'' @ ''\<newline>\<newline>'')])) =
     Some \<lparr>exit_code = 0, stdout = Some ([CHR 0xA0] @ ''Shut Off'' @ ''\<newline>\<newline>'')\<rparr> \<and>
   spec_space (CHR 0xA0) \<and> spec_space (CHR 0x0A) \<and>
   \<not> spec_space (hd ''Shut Off'') \<and> \<not> spec_space (last ''Shut Off'') \<and>
   r_status (fst (get_vm_status (plain True) (scripted True) ''Fedora39'' ''qemu:///system''
      (init [exits 0 ([CHR 0xA0] @ ''Shut Off'' @ ''\<newline>\<newline>'')]))) = Stopped"
proof -
  let ?out = "[CHR 0xA0] @ ''Shut Off'' @ ''\<newline>\<newline>''"
  have a: "libvirt_available (plain True)" by (simp add: plain_def)
  have u: "''qemu:///system'' \<noteq> ''qemu''" by simp
  have h: "fst (run_command (plain True) (scripted True)
          [''virsh'', ''-c'', ''qemu:///system'', ''domstate'', ''Fedora39'']
          (init [exits 0 ?out])) = Some \<lparr>exit_code = 0, stdout = Some ?out\<rparr>"
    by (simp add: run_command_def scripted_def exits_def init_def)
  have e: "exit_code \<lparr>exit_code = 0, stdout = Some ?out\<rparr> = 0" by simp
  have o: "stdout \<lparr>exit_code = 0, stdout = Some ?out\<rparr> = Some ?out" by simp
  have w: "spec_space (CHR 0xA0) \<and> spec_space (CHR 0x0A)" by (simp add: spec_space_def)
  have w1: "\<forall>c \<in> set [CHR 0xA0]. spec_space c" using w by simp
  have w2: "\<forall>c \<in> set ''\<newline>\<newline>''. spec_space c" using w by simp
  have c: "\<not> spec_space (hd ''Shut Off'') \<and> \<not> spec_space (last ''Shut Off'')"
    by (simp add: spec_space_def)
  have v: "spec_status (map spec_lower ''Shut Off'') = Stopped" by code_simp
  have r: "r_status (fst (get_vm_status (plain True) (scripted True) ''Fedora39''
      ''qemu:///system'' (init [exits 0 ?out]))) = Stopped"
    using domstate_mapping_normalised [OF a u h e o w1 w2 disjI2 [OF c]] unfolding v .
  show ?thesis
    using a u h w c r by (intro conjI) simp_all
qed

text \<open>
  The output \<^verbatim>\<open>RUNNING\<close> is none of the five strings, and the status is \<open>Running\<close>,
  not \<open>Unknown\<close>.
\<close>

theorem domstate_mapping_raw_counterexample:
  "r_status (fst (get_vm_status (plain True) (scripted True) ''Fedora39'' ''qemu:///system''
      (init [exits 0 ''RUNNING'']))) \<noteq>
   (if ''RUNNING'' = ''running'' then Running
    else if ''RUNNING'' \<in> set [''shut off'', ''inactive'', ''paused'', ''suspended''] then Stopped
    else Unknown)"
  by (simp add: get_vm_status_def run_command_def advance_def host_argv_def scripted_def
        exits_def init_def plain_def py_lower_def py_strip_def is_space_def lower_char_def
        upper_latin1_def lower_latin1_def)

subsection \<open>Idempotent start and stop\<close>

text \<open>
  C5. If the first status query reports \<open>Running\<close>, \<^verbatim>\<open>start_vm\<close> returns \<open>True\<close>
  and the only command it has issued is that query; if it reports \<open>Stopped\<close>,
  \<^verbatim>\<open>stop_vm\<close> returns \<open>True\<close> and the only command it has issued is that query.
\<close>

theorem start_stop_idempotent:
  "(r_status (fst (get_vm_status C E nm uri s)) = Running \<longrightarrow>
      fst (start_vm C E nm uri vm_config s) = True \<and>
      trace (snd (start_vm C E nm uri vm_config s)) =
        trace s @ [Spawn (host_argv C (if uri = ''qemu'' then [''pgrep'', ''-f'', ''qemu.*'' @ nm]
                                       else [''virsh'', ''-c'', uri, ''domstate'', nm]))]) \<and>
   (r_status (fst (get_vm_status C E nm uri s)) = Stopped \<longrightarrow>
      fst (stop_vm C E nm uri force timeout s) = True \<and>
      trace (snd (stop_vm C E nm uri force timeout s)) =
        trace s @ [Spawn (host_argv C (if uri = ''qemu'' then [''pgrep'', ''-f'', ''qemu.*'' @ nm]
                                       else [''virsh'', ''-c'', uri, ''domstate'', nm]))])"
proof (intro conjI impI)
  assume r: "r_status (fst (get_vm_status C E nm uri s)) = Running"
  then have st: "start_vm C E nm uri vm_config s = (True, snd (get_vm_status C E nm uri s))"
    by (cases "get_vm_status C E nm uri s") (simp add: start_vm_def)
  show "fst (start_vm C E nm uri vm_config s) = True" by (simp add: st)
  from r have "uri = ''qemu'' \<or> libvirt_available C"
    by (intro status_known_query [of C E nm uri s]) simp
  then show "trace (snd (start_vm C E nm uri vm_config s)) =
        trace s @ [Spawn (host_argv C (if uri = ''qemu'' then [''pgrep'', ''-f'', ''qemu.*'' @ nm]
                                       else [''virsh'', ''-c'', uri, ''domstate'', nm]))]"
    by (auto simp: st trace_get_vm_status)
next
  assume r: "r_status (fst (get_vm_status C E nm uri s)) = Stopped"
  then have st: "stop_vm C E nm uri force timeout s = (True, snd (get_vm_status C E nm uri s))"
    by (cases "get_vm_status C E nm uri s") (simp add: stop_vm_def)
  show "fst (stop_vm C E nm uri force timeout s) = True" by (simp add: st)
  from r have "uri = ''qemu'' \<or> libvirt_available C"
    by (intro status_known_query [of C E nm uri s]) simp
  then show "trace (snd (stop_vm C E nm uri force timeout s)) =
        trace s @ [Spawn (host_argv C (if uri = ''qemu'' then [''pgrep'', ''-f'', ''qemu.*'' @ nm]
                                       else [''virsh'', ''-c'', uri, ''domstate'', nm]))]"
    by (auto simp: st trace_get_vm_status)
qed

theorem start_stop_idempotent_witness:
  "r_status (fst (get_vm_status (plain True) (scripted True) ''Fedora39'' ''qemu''
      (init [exits 0 ''4242'']))) = Running \<and>
   fst (start_vm (plain True) (scripted True) ''Fedora39'' ''qemu'' None
      (init [exits 0 ''4242''])) = True \<and>
   trace (snd (start_vm (plain True) (scripted True) ''Fedora39'' ''qemu'' None
      (init [exits 0 ''4242'']))) = [Spawn [''pgrep'', ''-f'', ''qemu.*Fedora39'']] \<and>
   r_status (fst (get_vm_status (plain True) (scripted True) ''Fedora39'' ''qemu:///system''
      (init [exits 0 ''shut off'']))) = Stopped \<and>
   fst (stop_vm (plain True) (scripted True) ''Fedora39'' ''qemu:///system'' False 3
      (init [exits 0 ''shut off''])) = True \<and>
   trace (snd (stop_vm (plain True) (scripted True) ''Fedora39'' ''qemu:///system'' False 3
      (init [exits 0 ''shut off'']))) =
     [Spawn [''virsh'', ''-c'', ''qemu:///system'', ''domstate'', ''Fedora39'']]"
proof -
  have a: "r_status (fst (get_vm_status (plain True) (scripted True) ''Fedora39'' ''qemu''
      (init [exits 0 ''4242'']))) = Running"
    by (simp add: get_vm_status_def run_command_def advance_def host_argv_def scripted_def
          exits_def init_def plain_def)
  have b: "r_status (fst (get_vm_status (plain True) (scripted True) ''Fedora39''
      ''qemu:///system'' (init [exits 0 ''shut off'']))) = Stopped"
    by (simp add: get_vm_status_def run_command_def advance_def host_argv_def scripted_def
          exits_def init_def plain_def py_lower_def py_strip_def is_space_def lower_char_def
        upper_latin1_def lower_latin1_def)
  show ?thesis
    using a b
      start_stop_idempotent
        [of "plain True" "scripted True" "''Fedora39''" "''qemu''" "init [exits 0 ''4242'']" None]
      start_stop_idempotent
        [of "plain True" "scripted True" "''Fedora39''" "''qemu:///system''"
            "init [exits 0 ''shut off'']" _ False 3]
    by (simp add: init_def plain_def host_argv_def)
qed

subsection \<open>Enumeration\<close>

lemma scan_lines_names:
  "vm_name ` set found \<inter> names = {} \<Longrightarrow>
     vm_name ` set (scan_lines names ls found) \<inter> names = {}"
  by (induction ls arbitrary: found) (auto split: option.splits)

lemma inv_libvirt_names:
  "(u, vs) \<in> set m \<Longrightarrow> v \<in> set vs \<Longrightarrow> vm_name v \<in> libvirt_vm_names m"
  by (force simp: libvirt_vm_names_def)

lemma get_vms_disjoint:
  "vm_name ` set (inv_qemu (fst (get_vms C E a s))) \<inter>
     libvirt_vm_names (inv_libvirt (fst (get_vms C E a s))) = {}"
  using scan_lines_names [of "[]"]
  by (simp add: get_vms_def split: prod.splits option.splits)

text \<open>
  C8. In every inventory returned by \<^verbatim>\<open>get_vms\<close>, no name of the \<^verbatim>\<open>qemu\<close> list
  is a name in the list of any URI of the \<^verbatim>\<open>libvirt\<close> dictionary.
\<close>

theorem get_vms_direct_not_managed:
  "\<forall>d \<in> set (inv_qemu (fst (get_vms C E show_all_connections s))).
     \<forall>(uri, uri_vms) \<in> set (inv_libvirt (fst (get_vms C E show_all_connections s))).
       vm_name d \<notin> vm_name ` set uri_vms"
  using get_vms_disjoint [of C E show_all_connections s] inv_libvirt_names
  by fastforce

text \<open>
  A host with the guests \<^verbatim>\<open>vmA\<close> (running) and \<^verbatim>\<open>vmC\<close> (inactive) under the system
  URI, and two processes whose command lines match the pattern of the scan, for
  \<^verbatim>\<open>vmA\<close> and \<^verbatim>\<open>vmB\<close>: only \<^verbatim>\<open>vmB\<close> is listed as a direct guest.
\<close>

theorem get_vms_direct_not_managed_witness:
  "inv_qemu (fst (get_vms (plain True) (scripted True) True
     (init [exits 0 ''vmA\<newline>'', exits 0 ''vmC\<newline>'', exits 1 [], None,
            exits 0 (''1 qemu -name'' @ [backslash] @ ''sguest=vmA,x\<newline>'' @
                     ''2 qemu -name'' @ [backslash] @ ''sguest=vmB,x\<newline>'')]))) =
     [\<lparr>vm_name = ''vmB'', vm_state = Running\<rparr>] \<and>
   inv_libvirt (fst (get_vms (plain True) (scripted True) True
     (init [exits 0 ''vmA\<newline>'', exits 0 ''vmC\<newline>'', exits 1 [], None,
            exits 0 (''1 qemu -name'' @ [backslash] @ ''sguest=vmA,x\<newline>'' @
                     ''2 qemu -name'' @ [backslash] @ ''sguest=vmB,x\<newline>'')]))) =
     [(''qemu:///system'', [\<lparr>vm_name = ''vmA'', vm_state = Running\<rparr>,
                            \<lparr>vm_name = ''vmC'', vm_state = Stopped\<rparr>]),
      (''qemu:///session'', [])] \<and>
   ''vmB'' \<notin> vm_name ` set [\<lparr>vm_name = ''vmA'', vm_state = Running\<rparr>,
                               \<lparr>vm_name = ''vmC'', vm_state = Stopped\<rparr>]"
proof -
  let ?s = "init [exits 0 ''vmA\<newline>'', exits 0 ''vmC\<newline>'', exits 1 [], None,
            exits 0 (''1 qemu -name'' @ [backslash] @ ''sguest=vmA,x\<newline>'' @
                     ''2 qemu -name'' @ [backslash] @ ''sguest=vmB,x\<newline>'')]"
  have q: "inv_qemu (fst (get_vms (plain True) (scripted True) True ?s)) =
     [\<lparr>vm_name = ''vmB'', vm_state = Running\<rparr>]"
    by code_simp
  have l: "inv_libvirt (fst (get_vms (plain True) (scripted True) True ?s)) =
     [(''qemu:///system'', [\<lparr>vm_name = ''vmA'', vm_state = Running\<rparr>,
                            \<lparr>vm_name = ''vmC'', vm_state = Stopped\<rparr>]),
      (''qemu:///session'', [])]"
    by code_simp
  show ?thesis
    using get_vms_direct_not_managed [of "plain True" "scripted True" True ?s]
    unfolding q l by simp
qed

text \<open>
  The pattern of the scan matches only in a line that holds a backslash character, so a
  process listing without one adds nothing to the \<^verbatim>\<open>qemu\<close> list.
\<close>

lemma after_prefix_append: "after_prefix p s = Some r \<Longrightarrow> s = p @ r"
  by (induction p s rule: after_prefix.induct) (auto split: if_splits)

lemma match_guest_backslash: "match_guest l = Some g \<Longrightarrow> backslash \<in> set l"
  by (auto simp: match_guest_def split: option.splits if_splits dest!: after_prefix_append)

lemma search_guest_backslash: "search_guest l = Some g \<Longrightarrow> backslash \<in> set l"
  by (induction l) (auto split: option.splits dest: match_guest_backslash)

lemma scan_lines_no_backslash:
  "\<forall>l \<in> set ls. backslash \<notin> set l \<Longrightarrow> scan_lines names ls found = found"
  by (induction ls arbitrary: found) (auto split: option.splits dest: search_guest_backslash)

text \<open>
  C1, at the line of Scenario A. The daemon manages only \<^verbatim>\<open>other\<close>; the process
  listing holds one line with the token \<^verbatim>\<open>-name guest=Fedora39,foo\<close>. The pattern
  of the scan asks for a backslash and the letter \<^verbatim>\<open>s\<close> where the line has a space,
  so the line does not match and the \<^verbatim>\<open>qemu\<close> list stays empty.
\<close>

theorem get_vms_scenario_A_direct_empty:
  "inv_qemu (fst (get_vms (plain True) (scripted True) True
     (init [exits 0 ''other\<newline>'', exits 0 [], exits 0 [], exits 0 [],
            exits 0 ''1234 qemu-system-x86_64 -name guest=Fedora39,foo -m 2048\<newline>'']))) = []"
  by code_simp

subsection \<open>Starting a direct guest\<close>

lemma config_args_spec: "config_args cfg cmd = cmd @ concat (map spec_flag_tokens cfg)"
  by (induction cfg cmd rule: config_args.induct) simp_all

lemma trace_settle:
  "trace (snd (settle C E nm uri d x s)) =
     trace (snd (get_vm_status C E nm uri (sleep E d s)))"
  by (simp add: settle_def split: prod.splits)

lemma trace_sleep: "trace (sleep E d s) = trace s @ [Sleep d]"
  by (simp add: sleep_def advance_def)

lemma trace_kill: "trace (snd (kill E pid sig s)) = trace s @ [Kill pid sig]"
  by (simp add: kill_def advance_def split: prod.splits)

text \<open>
  C9. On the direct path (\<^verbatim>\<open>uri\<close> is \<^verbatim>\<open>qemu\<close>, no Flatpak prefix, guest not
  reported \<open>Running\<close>) \<^verbatim>\<open>start_vm\<close> issues, after the status query, exactly one
  spawn: the binary, \<^verbatim>\<open>-name\<close>, \<^verbatim>\<open>guest=<name>\<close>, and then
  the tokens of the configuration entries in their order: a bare flag for a Boolean
  true, and otherwise the flag and the value as a string (the text itself for a string,
  \<^verbatim>\<open>False\<close> for a Boolean false). Only when the spawn succeeded do the settle delay
  and the second status query follow. For the configuration of Scenario D the command is
  \<^verbatim>\<open><binary> -name guest=<name> -m 2048 -enable-kvm\<close>.
\<close>

theorem start_vm_direct_argv:
  assumes "\<not> flatpak C" and "r_status (fst (get_vm_status C E nm ''qemu'' s)) \<noteq> Running"
  shows "trace (snd (start_vm C E nm ''qemu'' (Some cfg) s)) =
           trace s @
           [Spawn [''pgrep'', ''-f'', ''qemu.*'' @ nm],
            Spawn ([qemu_bin_path C, ''-name'', ''guest='' @ nm] @ concat (map spec_flag_tokens cfg))] @
           (if fst (run_command C E (start_cmd C nm (Some cfg)) (snd (get_vm_status C E nm ''qemu'' s))) = None
            then [] else [Sleep 2, Spawn [''pgrep'', ''-f'', ''qemu.*'' @ nm]]) \<and>
         [qemu_bin_path C, ''-name'', ''guest='' @ nm] @
           concat (map spec_flag_tokens [(''m'', VStr ''2048''), (''enable-kvm'', VBool True)]) =
         [qemu_bin_path C, ''-name'', ''guest='' @ nm, ''-m'', ''2048'', ''-enable-kvm'']"
proof
  obtain r0 s0 where g: "get_vm_status C E nm ''qemu'' s = (r0, s0)" by force
  obtain p s1 where r: "run_command C E (start_cmd C nm (Some cfg)) s0 = (p, s1)" by force
  have t0: "trace s0 = trace s @ [Spawn [''pgrep'', ''-f'', ''qemu.*'' @ nm]]"
    using trace_get_vm_status [of C E nm "''qemu''" s] assms(1) g by (simp add: host_argv_def)
  have c: "start_cmd C nm (Some cfg) =
      [qemu_bin_path C, ''-name'', ''guest='' @ nm] @ concat (map spec_flag_tokens cfg)"
    by (simp add: start_cmd_def config_args_spec)
  have t1: "trace s1 = trace s0 @ [Spawn (start_cmd C nm (Some cfg))]"
    using trace_run_command [of C E "start_cmd C nm (Some cfg)" s0] assms(1) r
    by (simp add: host_argv_def)
  have t2: "trace (snd (settle C E nm ''qemu'' 2 Running s1)) =
      trace s1 @ [Sleep 2, Spawn [''pgrep'', ''-f'', ''qemu.*'' @ nm]]"
    using assms(1) by (simp add: trace_settle trace_get_vm_status trace_sleep host_argv_def)
  show "trace (snd (start_vm C E nm ''qemu'' (Some cfg) s)) =
           trace s @
           [Spawn [''pgrep'', ''-f'', ''qemu.*'' @ nm],
            Spawn ([qemu_bin_path C, ''-name'', ''guest='' @ nm] @ concat (map spec_flag_tokens cfg))] @
           (if fst (run_command C E (start_cmd C nm (Some cfg)) (snd (get_vm_status C E nm ''qemu'' s))) = None
            then [] else [Sleep 2, Spawn [''pgrep'', ''-f'', ''qemu.*'' @ nm]])"
    using assms(2) g r t0 t1 t2 c
    by (cases p) (simp_all add: start_vm_def)
  show "[qemu_bin_path C, ''-name'', ''guest='' @ nm] @
           concat (map spec_flag_tokens [(''m'', VStr ''2048''), (''enable-kvm'', VBool True)]) =
         [qemu_bin_path C, ''-name'', ''guest='' @ nm, ''-m'', ''2048'', ''-enable-kvm'']"
    by simp
qed

theorem start_vm_direct_argv_witness:
  "\<not> flatpak (plain True) \<and>
   r_status (fst (get_vm_status (plain True) (scripted True) ''Fedora39'' ''qemu''
      (init [exits 1 [], exits 0 [], exits 0 ''77'']))) \<noteq> Running \<and>
   trace (snd (start_vm (plain True) (scripted True) ''Fedora39'' ''qemu''
      (Some [(''m'', VStr ''2048''), (''enable-kvm'', VBool True)])
      (init [exits 1 [], exits 0 [], exits 0 ''77'']))) =
     [Spawn [''pgrep'', ''-f'', ''qemu.*Fedora39''],
      Spawn [''qemu-system-x86_64'', ''-name'', ''guest=Fedora39'', ''-m'', ''2048'',
             ''-enable-kvm''],
      Sleep 2,
      Spawn [''pgrep'', ''-f'', ''qemu.*Fedora39'']] \<and>
   trace (snd (start_vm (plain True) (scripted True) ''Fedora39'' ''qemu''
      (Some [(''snapshot'', VBool False), (''cpu'', VStr ''host'')])
      (init [exits 1 [], exits 0 [], exits 0 ''77'']))) =
     [Spawn [''pgrep'', ''-f'', ''qemu.*Fedora39''],
      Spawn [''qemu-system-x86_64'', ''-name'', ''guest=Fedora39'', ''-snapshot'', ''False'',
             ''-cpu'', ''host''],
      Sleep 2,
      Spawn [''pgrep'', ''-f'', ''qemu.*Fedora39'']]"
proof -
  let ?s = "init [exits 1 [], exits 0 [], exits 0 ''77'']"
  have a: "\<not> flatpak (plain True)" by (simp add: plain_def)
  have b: "r_status (fst (get_vm_status (plain True) (scripted True) ''Fedora39'' ''qemu'' ?s))
             \<noteq> Running"
    by (simp add: get_vm_status_def run_command_def advance_def host_argv_def scripted_def
          exits_def init_def plain_def)
  have c: "fst (run_command (plain True) (scripted True)
             (start_cmd (plain True) ''Fedora39'' (Some cfg))
             (snd (get_vm_status (plain True) (scripted True) ''Fedora39'' ''qemu'' ?s))) \<noteq> None"
    for cfg
    by (simp add: get_vm_status_def run_command_def advance_def host_argv_def scripted_def
          exits_def init_def plain_def)
  have d: "trace (snd (start_vm (plain True) (scripted True) ''Fedora39'' ''qemu''
      (Some [(''m'', VStr ''2048''), (''enable-kvm'', VBool True)]) ?s)) =
     [Spawn [''pgrep'', ''-f'', ''qemu.*Fedora39''],
      Spawn [''qemu-system-x86_64'', ''-name'', ''guest=Fedora39'', ''-m'', ''2048'',
             ''-enable-kvm''],
      Sleep 2,
      Spawn [''pgrep'', ''-f'', ''qemu.*Fedora39'']]"
    using c [of "[(''m'', VStr ''2048''), (''enable-kvm'', VBool True)]"]
      start_vm_direct_argv [OF a b, of "[(''m'', VStr ''2048''), (''enable-kvm'', VBool True)]"]
    by simp (simp add: plain_def init_def)
  have e: "trace (snd (start_vm (plain True) (scripted True) ''Fedora39'' ''qemu''
      (Some [(''snapshot'', VBool False), (''cpu'', VStr ''host'')]) ?s)) =
     [Spawn [''pgrep'', ''-f'', ''qemu.*Fedora39''],
      Spawn [''qemu-system-x86_64'', ''-name'', ''guest=Fedora39'', ''-snapshot'', ''False'',
             ''-cpu'', ''host''],
      Sleep 2,
      Spawn [''pgrep'', ''-f'', ''qemu.*Fedora39'']]"
    using c [of "[(''snapshot'', VBool False), (''cpu'', VStr ''host'')]"]
      start_vm_direct_argv [OF a b, of "[(''snapshot'', VBool False), (''cpu'', VStr ''host'')]"]
    by simp (simp add: plain_def init_def)
  show ?thesis using a b d e by (intro conjI)
qed

subsection \<open>Stopping a direct guest whose process search is ambiguous\<close>

lemma py_strip_idem: "py_strip (py_strip s) = py_strip s"
proof -
  define d where "d = dropWhile is_space s"
  define e where "e = dropWhile is_space (rev d)"
  have t: "py_strip s = rev e" by (simp add: py_strip_def d_def e_def)
  have keep: "dropWhile is_space (rev e) = rev e"
  proof (cases "e = []")
    case True
    then show ?thesis by simp
  next
    case False
    then have dne: "d \<noteq> []" by (auto simp: e_def)
    have "rev d = takeWhile is_space (rev d) @ e" by (simp add: e_def)
    then have "last (rev d) = last e" using False by (metis last_appendR)
    then have "hd (rev e) = hd d" using False dne by (simp add: hd_rev last_rev)
    moreover have "\<not> is_space (hd d)" using dne unfolding d_def by (rule hd_dropWhile)
    ultimately show ?thesis using False by (simp add: dropWhile_eq_self_iff)
  qed
  have "dropWhile is_space e = e" by (simp add: e_def)
  then show ?thesis by (simp add: t) (simp add: py_strip_def keep)
qed

lemma digits_ok_no_newline: "digits_ok ds \<Longrightarrow> CHR 0x0A \<notin> set ds"
  by (induction ds rule: digits_ok.induct) (auto simp: is_digit_def split: if_splits)

lemma py_int_no_newline: "py_int s = Some n \<Longrightarrow> CHR 0x0A \<notin> set (py_strip s)"
  by (auto simp: py_int_def literal_ok_def split: list.splits if_splits
           dest: digits_ok_no_newline)

lemma py_int_multiline: "CHR 0x0A \<in> set (py_strip out) \<Longrightarrow> py_int (py_strip out) = None"
  using py_int_no_newline [of "py_strip out"] by (cases "py_int (py_strip out)") (auto simp: py_strip_idem)

text \<open>
  Trailing whitespace of any kind is stripped before the text is read as a number: a
  single process id followed by a line feed and a no-break space is not ambiguous.
\<close>

lemma py_int_single_pid: "py_int (py_strip (''101\<newline>'' @ [CHR 0xA0])) = Some 101"
  by code_simp

lemma running_qemu_type:
  "r_type (fst (get_vm_status C E nm ''qemu'' s)) = Some Qemu"
  by (auto simp: get_vm_status_def split: prod.splits option.splits)

text \<open>
  C10. \<^verbatim>\<open>stop_vm\<close> on the \<^verbatim>\<open>qemu\<close> path, for a guest reported \<open>Running\<close>: when
  the process search that resolves the process id succeeds with more than one line of
  output, that is, when the output between its surrounding whitespace holds a line feed,
  no signal is sent (the trace holds the two process searches only) and the result is
  \<open>False\<close>.
\<close>

theorem stop_vm_direct_ambiguous_pid:
  assumes "r_status (fst (get_vm_status C E nm ''qemu'' s)) = Running"
    and "run_command C E [''pgrep'', ''-f'', ''qemu.*'' @ nm]
           (snd (get_vm_status C E nm ''qemu'' s)) = (Some p, s1)"
    and "exit_code p = 0" and "stdout p = Some (pre @ core @ post)"
    and "\<forall>c \<in> set pre. spec_space c" and "\<forall>c \<in> set post. spec_space c"
    and "\<not> spec_space (hd core) \<and> \<not> spec_space (last core)"
    and "CHR 0x0A \<in> set core"
  shows "stop_vm C E nm ''qemu'' force timeout s = (False, s1) \<and>
         trace s1 = trace s @ [Spawn (host_argv C [''pgrep'', ''-f'', ''qemu.*'' @ nm]),
                               Spawn (host_argv C [''pgrep'', ''-f'', ''qemu.*'' @ nm])]"
proof
  obtain r0 s0 where g: "get_vm_status C E nm ''qemu'' s = (r0, s0)" by force
  have ty: "r_type r0 = Some Qemu" using running_qemu_type [of C E nm s] g by simp
  have st: "py_strip (pre @ core @ post) = core"
    using assms(5,6) disjI2 [OF assms(7)] by (rule py_strip_core)
  have "py_int (py_strip (pre @ core @ post)) = None"
    using py_int_multiline [of "pre @ core @ post"] assms(8) by (simp only: st)
  then have "stop_qemu C E nm ''qemu'' force timeout s0 = (False, s1)"
    using assms(1-4) g by (simp add: stop_qemu_def)
  then show "stop_vm C E nm ''qemu'' force timeout s = (False, s1)"
    using assms(1) g ty by (simp add: stop_vm_def)
  show "trace s1 = trace s @ [Spawn (host_argv C [''pgrep'', ''-f'', ''qemu.*'' @ nm]),
                               Spawn (host_argv C [''pgrep'', ''-f'', ''qemu.*'' @ nm])]"
    using trace_run_command [of C E "[''pgrep'', ''-f'', ''qemu.*'' @ nm]" s0]
          trace_get_vm_status [of C E nm "''qemu''" s] assms(2) g
    by simp
qed

theorem stop_vm_direct_ambiguous_pid_witness:
  "r_status (fst (get_vm_status (plain True) (scripted True) ''Fedora39'' ''qemu''
      (init [exits 0 ''101\<newline>202\<newline>'', exits 0 ''101\<newline>202\<newline>'']))) = Running \<and>
   spec_space (CHR 0x0A) \<and>
   \<not> spec_space (hd ''101\<newline>202'') \<and> \<not> spec_space (last ''101\<newline>202'') \<and>
   CHR 0x0A \<in> set ''101\<newline>202'' \<and>
   stop_vm (plain True) (scripted True) ''Fedora39'' ''qemu'' False 3
      (init [exits 0 ''101\<newline>202\<newline>'', exits 0 ''101\<newline>202\<newline>'']) =
     (False, \<lparr>world = [], now = 0,
              trace = [Spawn [''pgrep'', ''-f'', ''qemu.*Fedora39''],
                       Spawn [''pgrep'', ''-f'', ''qemu.*Fedora39'']]\<rparr>)"
proof -
  let ?s = "init [exits 0 ''101\<newline>202\<newline>'', exits 0 ''101\<newline>202\<newline>'']"
  let ?p = "\<lparr>exit_code = 0, stdout = Some ''101\<newline>202\<newline>''\<rparr>"
  let ?s1 = "\<lparr>world = [], now = 0,
              trace = [Spawn [''pgrep'', ''-f'', ''qemu.*Fedora39''],
                       Spawn [''pgrep'', ''-f'', ''qemu.*Fedora39'']]\<rparr>"
  have a: "r_status (fst (get_vm_status (plain True) (scripted True) ''Fedora39'' ''qemu'' ?s)) = Running"
    by (simp add: get_vm_status_def run_command_def advance_def host_argv_def scripted_def
          exits_def init_def plain_def)
  have b: "run_command (plain True) (scripted True) [''pgrep'', ''-f'', ''qemu.*'' @ ''Fedora39'']
             (snd (get_vm_status (plain True) (scripted True) ''Fedora39'' ''qemu'' ?s)) =
           (Some ?p, ?s1)"
    by (simp add: get_vm_status_def run_command_def advance_def host_argv_def scripted_def
          exits_def init_def plain_def)
  have e: "exit_code ?p = 0" by simp
  have o: "stdout ?p = Some ([] @ ''101\<newline>202'' @ ''\<newline>'')" by simp
  have w: "spec_space (CHR 0x0A)" by (simp add: spec_space_def)
  have w1: "\<forall>c \<in> set []. spec_space c" by simp
  have w2: "\<forall>c \<in> set ''\<newline>''. spec_space c" using w by simp
  have c: "\<not> spec_space (hd ''101\<newline>202'') \<and> \<not> spec_space (last ''101\<newline>202'')"
    by (simp add: spec_space_def)
  have l: "CHR 0x0A \<in> set ''101\<newline>202''" by simp
  have r: "stop_vm (plain True) (scripted True) ''Fedora39'' ''qemu'' False 3 ?s = (False, ?s1)"
    using stop_vm_direct_ambiguous_pid [OF a b e o w1 w2 c l, of False 3] by (rule conjunct1)
  show ?thesis
    using a w c l r by (intro conjI) simp_all
qed

subsection \<open>Forced stop of a daemon guest\<close>

lemma running_daemon:
  "uri \<noteq> ''qemu'' \<Longrightarrow> r_status (fst (get_vm_status C E nm uri s)) = Running \<Longrightarrow>
     libvirt_available C"
  using status_known_query [of C E nm uri s] by simp

lemma daemon_type:
  "uri \<noteq> ''qemu'' \<Longrightarrow> libvirt_available C \<Longrightarrow>
     r_type (fst (get_vm_status C E nm uri s)) = Some Libvirt"
  by (auto simp: get_vm_status_def split: prod.splits option.splits)

text \<open>
  C4, as the code has it. \<^verbatim>\<open>stop_vm\<close> with \<^verbatim>\<open>force=True\<close> on a daemon URI whose
  status query reports \<open>Running\<close> issues \<^verbatim>\<open>destroy\<close> once and never polls: the
  trace holds the status query, the \<^verbatim>\<open>destroy\<close> command and, only when that command
  was spawned and exited with 0, the settle delay and one more status query. In that case
  the result is whether the second query reports \<open>Stopped\<close>; when \<^verbatim>\<open>destroy\<close>
  cannot be spawned or exits nonzero the result is \<open>False\<close> and nothing is queried again.
\<close>

theorem stop_vm_force_daemon:
  assumes "uri \<noteq> ''qemu''"
    and "r_status (fst (get_vm_status C E nm uri s)) = Running"
    and "run_command C E [''virsh'', ''-c'', uri, ''destroy'', nm]
           (snd (get_vm_status C E nm uri s)) = (p, s1)"
  shows "stop_vm C E nm uri True timeout s =
           (if succeeded p
            then (r_status (fst (get_vm_status C E nm uri (sleep E (1 / 5) s1))) = Stopped,
                  snd (get_vm_status C E nm uri (sleep E (1 / 5) s1)))
            else (False, s1)) \<and>
         trace (snd (stop_vm C E nm uri True timeout s)) =
           trace s @
           [Spawn (host_argv C [''virsh'', ''-c'', uri, ''domstate'', nm]),
            Spawn (host_argv C [''virsh'', ''-c'', uri, ''destroy'', nm])] @
           (if succeeded p
            then [Sleep (1 / 5), Spawn (host_argv C [''virsh'', ''-c'', uri, ''domstate'', nm])]
            else [])"
proof -
  obtain r0 s0 where g: "get_vm_status C E nm uri s = (r0, s0)" by force
  have av: "libvirt_available C" using running_daemon [OF assms(1,2)] .
  have ty: "r_type r0 = Some Libvirt" using daemon_type [OF assms(1) av, of E nm s] g by simp
  have st: "r_status r0 = Running" using assms(2) g by simp
  have r: "run_command C E [''virsh'', ''-c'', uri, ''destroy'', nm] s0 = (p, s1)"
    using assms(3) g by simp
  have eq: "stop_vm C E nm uri True timeout s =
           (if succeeded p
            then (r_status (fst (get_vm_status C E nm uri (sleep E (1 / 5) s1))) = Stopped,
                  snd (get_vm_status C E nm uri (sleep E (1 / 5) s1)))
            else (False, s1))"
    using assms(1) g ty st r
    by (cases p) (simp_all add: stop_vm_def stop_libvirt_def succeeded_def settle_def
                    split: prod.splits)
  have t0: "trace s0 = trace s @ [Spawn (host_argv C [''virsh'', ''-c'', uri, ''domstate'', nm])]"
    using trace_get_vm_status [of C E nm uri s] assms(1) av g by simp
  have t1: "trace s1 = trace s0 @ [Spawn (host_argv C [''virsh'', ''-c'', uri, ''destroy'', nm])]"
    using trace_run_command [of C E "[''virsh'', ''-c'', uri, ''destroy'', nm]" s0] r by simp
  have t2: "trace (snd (get_vm_status C E nm uri (sleep E (1 / 5) s1))) =
      trace s1 @ [Sleep (1 / 5), Spawn (host_argv C [''virsh'', ''-c'', uri, ''domstate'', nm])]"
    using assms(1) av by (simp add: trace_get_vm_status trace_sleep)
  show ?thesis
    unfolding eq using t0 t1 t2 by simp
qed

theorem stop_vm_force_daemon_witness:
  "''qemu:///system'' \<noteq> ''qemu'' \<and>
   r_status (fst (get_vm_status (plain True) (scripted True) ''Fedora39'' ''qemu:///system''
      (init [exits 0 ''running\<newline>'', exits 0 [], exits 0 ''shut off\<newline>'']))) = Running \<and>
   stop_vm (plain True) (scripted True) ''Fedora39'' ''qemu:///system'' True 3
      (init [exits 0 ''running\<newline>'', exits 0 [], exits 0 ''shut off\<newline>'']) =
     (True, \<lparr>world = [], now = 1 / 5,
             trace = [Spawn [''virsh'', ''-c'', ''qemu:///system'', ''domstate'', ''Fedora39''],
                      Spawn [''virsh'', ''-c'', ''qemu:///system'', ''destroy'', ''Fedora39''],
                      Sleep (1 / 5),
                      Spawn [''virsh'', ''-c'', ''qemu:///system'', ''domstate'', ''Fedora39'']]\<rparr>)"
proof -
  let ?s = "init [exits 0 ''running\<newline>'', exits 0 [], exits 0 ''shut off\<newline>'']"
  let ?s1 = "\<lparr>world = [exits 0 ''shut off\<newline>''], now = 0,
             trace = [Spawn [''virsh'', ''-c'', ''qemu:///system'', ''domstate'', ''Fedora39''],
                      Spawn [''virsh'', ''-c'', ''qemu:///system'', ''destroy'', ''Fedora39'']]\<rparr>"
  have u: "''qemu:///system'' \<noteq> ''qemu''" by simp
  have a: "r_status (fst (get_vm_status (plain True) (scripted True) ''Fedora39''
             ''qemu:///system'' ?s)) = Running"
    by code_simp
  have b: "run_command (plain True) (scripted True)
             [''virsh'', ''-c'', ''qemu:///system'', ''destroy'', ''Fedora39'']
             (snd (get_vm_status (plain True) (scripted True) ''Fedora39'' ''qemu:///system'' ?s)) =
           (exits 0 [], ?s1)"
    by code_simp
  have c: "succeeded (exits 0 [])" by (simp add: succeeded_def exits_def)
  have d: "get_vm_status (plain True) (scripted True) ''Fedora39'' ''qemu:///system''
             (sleep (scripted True) (1 / 5) ?s1) =
           (\<lparr>r_status = Stopped, r_type = Some Libvirt, r_uri = Some ''qemu:///system''\<rparr>,
            \<lparr>world = [], now = 1 / 5,
             trace = [Spawn [''virsh'', ''-c'', ''qemu:///system'', ''domstate'', ''Fedora39''],
                      Spawn [''virsh'', ''-c'', ''qemu:///system'', ''destroy'', ''Fedora39''],
                      Sleep (1 / 5),
                      Spawn [''virsh'', ''-c'', ''qemu:///system'', ''domstate'', ''Fedora39'']]\<rparr>)"
    by code_simp
  show ?thesis
    using a stop_vm_force_daemon [OF u a b, of 3] by (simp add: c d)
qed

text \<open>
  The \<^verbatim>\<open>destroy\<close> command exits with 1 and a status query after the settle delay
  would report \<open>Stopped\<close>: \<^verbatim>\<open>stop_vm\<close> has returned \<open>False\<close>.
\<close>

theorem stop_vm_force_failed_destroy_counterexample:
  "fst (stop_vm (plain True) (scripted True) ''Fedora39'' ''qemu:///system'' True 3
          (init [exits 0 ''running\<newline>'', exits 1 [], exits 0 ''shut off\<newline>''])) \<noteq>
   (r_status (fst (get_vm_status (plain True) (scripted True) ''Fedora39'' ''qemu:///system''
       (sleep (scripted True) (1 / 5)
          (snd (stop_vm (plain True) (scripted True) ''Fedora39'' ''qemu:///system'' True 3
             (init [exits 0 ''running\<newline>'', exits 1 [], exits 0 ''shut off\<newline>''])))))) = Stopped)"
  by code_simp

subsection \<open>Graceful stop and escalation\<close>

text \<open>
  The polling loop adds to the trace only status queries and sleeps of one second.
\<close>

lemma poll_trace:
  "\<exists>evs. trace (snd (poll C E nm uri start_time timeout s)) = trace s @ evs \<and>
     (\<forall>e \<in> set evs. e = Sleep 1 \<or>
        e = Spawn (host_argv C [''pgrep'', ''-f'', ''qemu.*'' @ nm]) \<or>
        e = Spawn (host_argv C [''virsh'', ''-c'', uri, ''domstate'', nm]))"
proof (induction C E nm uri start_time timeout s rule: poll.induct)
  case (1 C E nm uri start_time timeout s)
  let ?g = "get_vm_status C E nm uri s"
  obtain q where q: "trace (snd ?g) = trace s @ q"
    and qs: "\<forall>e \<in> set q. e = Spawn (host_argv C [''pgrep'', ''-f'', ''qemu.*'' @ nm]) \<or>
                e = Spawn (host_argv C [''virsh'', ''-c'', uri, ''domstate'', nm])"
    using trace_get_vm_status [of C E nm uri s] by (cases "uri = ''qemu''") auto
  show ?case
  proof (cases "now s - start_time < timeout")
    case False
    then show ?thesis by (subst poll.simps) simp
  next
    case True
    show ?thesis
    proof (cases "r_status (fst ?g) = Stopped")
      case st: True
      then show ?thesis using True q qs by (subst poll.simps) auto
    next
      case st: False
      obtain evs where ih: "trace (snd (poll C E nm uri start_time timeout (sleep E 1 (snd ?g)))) =
            trace (sleep E 1 (snd ?g)) @ evs"
        and es: "\<forall>e \<in> set evs. e = Sleep 1 \<or>
             e = Spawn (host_argv C [''pgrep'', ''-f'', ''qemu.*'' @ nm]) \<or>
             e = Spawn (host_argv C [''virsh'', ''-c'', uri, ''domstate'', nm])"
        using 1 [OF True st] by blast
      have "trace (snd (poll C E nm uri start_time timeout s)) =
              trace s @ (q @ Sleep 1 # evs)"
        using True st ih q by (subst poll.simps) (simp add: trace_sleep)
      moreover have "\<forall>e \<in> set (q @ Sleep 1 # evs). e = Sleep 1 \<or>
             e = Spawn (host_argv C [''pgrep'', ''-f'', ''qemu.*'' @ nm]) \<or>
             e = Spawn (host_argv C [''virsh'', ''-c'', uri, ''domstate'', nm])"
        using qs es by auto
      ultimately show ?thesis by blast
    qed
  qed
qed

lemma issued_append: "trace s' = trace s @ evs \<Longrightarrow> issued s s' = evs"
  by (simp add: issued_def)

text \<open>
  C2, as the code has it. A graceful stop was issued (\<^verbatim>\<open>shutdown\<close> exited with 0 on
  the daemon path, \<^verbatim>\<open>SIGTERM\<close> was sent on the direct path) and the polling loop
  ended by timeout without seeing \<open>Stopped\<close>. Then \<^verbatim>\<open>stop_vm\<close> issues the forced
  action (\<^verbatim>\<open>destroy\<close>, respectively \<^verbatim>\<open>SIGKILL\<close>) exactly when the status query
  after the loop reports \<open>Running\<close>, and the forced action comes before the settle
  delay and the last status query. The result is whether that last query reports
  \<open>Stopped\<close>; on the direct path the result is \<open>False\<close>, with no further query, when
  sending \<^verbatim>\<open>SIGKILL\<close> raises.
\<close>

theorem stop_vm_graceful_escalates:
  "(uri \<noteq> ''qemu'' \<and> libvirt_available C \<and>
    get_vm_status C E nm uri s = (r0, s0) \<and> r_status r0 \<noteq> Stopped \<and>
    run_command C E [''virsh'', ''-c'', uri, ''shutdown'', nm] s0 = (p, s1) \<and> succeeded p \<and>
    poll C E nm uri (now s1) timeout s1 = (False, s2) \<and>
    get_vm_status C E nm uri s2 = (r3, s3)
    \<longrightarrow>
    stop_vm C E nm uri False timeout s =
      settle C E nm uri (1 / 5) Stopped
        (if r_status r3 = Running
         then snd (run_command C E [''virsh'', ''-c'', uri, ''destroy'', nm] s3)
         else s3) \<and>
    (Spawn (host_argv C [''virsh'', ''-c'', uri, ''destroy'', nm])
       \<in> set (issued s (snd (stop_vm C E nm uri False timeout s)))) =
      (r_status r3 = Running)) \<and>
   (get_vm_status C E nm ''qemu'' s = (q0, t0) \<and> r_status q0 \<noteq> Stopped \<and>
    run_command C E [''pgrep'', ''-f'', ''qemu.*'' @ nm] t0 = (Some pr, t1) \<and>
    exit_code pr = 0 \<and> stdout pr = Some out \<and> py_int (py_strip out) = Some pid \<and>
    kill E pid SIGTERM t1 = (True, t2) \<and>
    poll C E nm ''qemu'' (now t2) timeout t2 = (False, t3) \<and>
    get_vm_status C E nm ''qemu'' t3 = (q4, t4) \<and>
    kill E pid SIGKILL t4 = (ok, t5)
    \<longrightarrow>
    stop_vm C E nm ''qemu'' False timeout s =
      (if r_status q4 = Running
       then (if ok then settle C E nm ''qemu'' 1 Stopped t5 else (False, t5))
       else settle C E nm ''qemu'' 1 Stopped t4) \<and>
    (Kill pid SIGKILL \<in> set (issued s (snd (stop_vm C E nm ''qemu'' False timeout s)))) =
      (r_status q4 = Running))"
proof (intro conjI impI; elim conjE)
  assume u: "uri \<noteq> ''qemu''" and av: "libvirt_available C"
    and g: "get_vm_status C E nm uri s = (r0, s0)" and ns: "r_status r0 \<noteq> Stopped"
    and r: "run_command C E [''virsh'', ''-c'', uri, ''shutdown'', nm] s0 = (p, s1)"
    and ok: "succeeded p"
    and po: "poll C E nm uri (now s1) timeout s1 = (False, s2)"
    and g3: "get_vm_status C E nm uri s2 = (r3, s3)"
  let ?dom = "Spawn (host_argv C [''virsh'', ''-c'', uri, ''domstate'', nm])"
  let ?des = "Spawn (host_argv C [''virsh'', ''-c'', uri, ''destroy'', nm])"
  let ?s4 = "if r_status r3 = Running
         then snd (run_command C E [''virsh'', ''-c'', uri, ''destroy'', nm] s3) else s3"
  have ty: "r_type r0 = Some Libvirt" using daemon_type [OF u av, of E nm s] g by simp
  obtain pr where p: "p = Some pr" "exit_code pr = 0"
    using ok by (cases p) (simp_all add: succeeded_def)
  have "stop_libvirt C E nm uri False timeout s0 = settle C E nm uri (1 / 5) Stopped ?s4"
    using r p po g3 by (simp add: stop_libvirt_def)
  then show eq: "stop_vm C E nm uri False timeout s = settle C E nm uri (1 / 5) Stopped ?s4"
    using u g ns ty by (simp add: stop_vm_def)
  obtain evs where pt: "trace s2 = trace s1 @ evs"
    and es: "\<forall>e \<in> set evs. e = Sleep 1 \<or>
        e = Spawn (host_argv C [''pgrep'', ''-f'', ''qemu.*'' @ nm]) \<or> e = ?dom"
    using poll_trace [of C E nm uri "now s1" timeout s1] po by auto
  have t0: "trace s0 = trace s @ [?dom]"
    using trace_get_vm_status [of C E nm uri s] u av g by simp
  have t1: "trace s1 = trace s0 @ [Spawn (host_argv C [''virsh'', ''-c'', uri, ''shutdown'', nm])]"
    using trace_run_command [of C E "[''virsh'', ''-c'', uri, ''shutdown'', nm]" s0] r by simp
  have t3: "trace s3 = trace s2 @ [?dom]"
    using trace_get_vm_status [of C E nm uri s2] u av g3 by simp
  have t4: "trace ?s4 = trace s3 @ (if r_status r3 = Running then [?des] else [])"
    by (simp add: trace_run_command)
  have t5: "trace (snd (settle C E nm uri (1 / 5) Stopped ?s4)) =
      trace ?s4 @ [Sleep (1 / 5), ?dom]"
    using u av by (simp only: trace_settle trace_get_vm_status trace_sleep) simp
  have iss: "issued s (snd (stop_vm C E nm uri False timeout s)) =
      [?dom, Spawn (host_argv C [''virsh'', ''-c'', uri, ''shutdown'', nm])] @ evs @ [?dom] @
      (if r_status r3 = Running then [?des] else []) @ [Sleep (1 / 5), ?dom]"
    unfolding eq by (rule issued_append) (simp only: t5 t4 t3 pt t1 t0, simp)
  have "?des \<notin> set evs" using es by (auto simp: host_argv_def split: if_splits)
  then show "(?des \<in> set (issued s (snd (stop_vm C E nm uri False timeout s)))) =
      (r_status r3 = Running)"
    unfolding iss by (auto simp: host_argv_def)
next
  assume g: "get_vm_status C E nm ''qemu'' s = (q0, t0)" and ns: "r_status q0 \<noteq> Stopped"
    and r: "run_command C E [''pgrep'', ''-f'', ''qemu.*'' @ nm] t0 = (Some pr, t1)"
    and ex: "exit_code pr = 0" and out: "stdout pr = Some out"
    and pid: "py_int (py_strip out) = Some pid"
    and k1: "kill E pid SIGTERM t1 = (True, t2)"
    and po: "poll C E nm ''qemu'' (now t2) timeout t2 = (False, t3)"
    and g4: "get_vm_status C E nm ''qemu'' t3 = (q4, t4)"
    and k2: "kill E pid SIGKILL t4 = (ok, t5)"
  let ?pg = "Spawn (host_argv C [''pgrep'', ''-f'', ''qemu.*'' @ nm])"
  let ?res = "if r_status q4 = Running
       then (if ok then settle C E nm ''qemu'' 1 Stopped t5 else (False, t5))
       else settle C E nm ''qemu'' 1 Stopped t4"
  have ty: "r_type q0 = Some Qemu" using running_qemu_type [of C E nm s] g by simp
  have "stop_qemu C E nm ''qemu'' False timeout t0 = ?res"
    using r ex out pid k1 po g4 k2 by (simp add: stop_qemu_def)
  then show eq: "stop_vm C E nm ''qemu'' False timeout s = ?res"
    using g ns ty by (simp add: stop_vm_def)
  obtain evs where pt: "trace t3 = trace t2 @ evs"
    and es: "\<forall>e \<in> set evs. e = Sleep 1 \<or> e = ?pg \<or>
        e = Spawn (host_argv C [''virsh'', ''-c'', ''qemu'', ''domstate'', nm])"
    using poll_trace [of C E nm "''qemu''" "now t2" timeout t2] po by auto
  have a0: "trace t0 = trace s @ [?pg]"
    using trace_get_vm_status [of C E nm "''qemu''" s] g by simp
  have a1: "trace t1 = trace t0 @ [?pg]"
    using trace_run_command [of C E "[''pgrep'', ''-f'', ''qemu.*'' @ nm]" t0] r by simp
  have a2: "trace t2 = trace t1 @ [Kill pid SIGTERM]"
    using trace_kill [of E pid SIGTERM t1] k1 by simp
  have a4: "trace t4 = trace t3 @ [?pg]"
    using trace_get_vm_status [of C E nm "''qemu''" t3] g4 by simp
  have a5: "trace t5 = trace t4 @ [Kill pid SIGKILL]"
    using trace_kill [of E pid SIGKILL t4] k2 by simp
  have se: "trace (snd (settle C E nm ''qemu'' 1 Stopped x)) = trace x @ [Sleep 1, ?pg]" for x
    by (simp only: trace_settle trace_get_vm_status trace_sleep) simp
  have iss: "issued s (snd (stop_vm C E nm ''qemu'' False timeout s)) =
      [?pg, ?pg, Kill pid SIGTERM] @ evs @ [?pg] @
      (if r_status q4 = Running
       then Kill pid SIGKILL # (if ok then [Sleep 1, ?pg] else [])
       else [Sleep 1, ?pg])"
    unfolding eq by (rule issued_append) (simp add: se a5 a4 pt a2 a1 a0)
  have "Kill pid SIGKILL \<notin> set evs" using es by auto
  then show "(Kill pid SIGKILL \<in> set (issued s (snd (stop_vm C E nm ''qemu'' False timeout s)))) =
      (r_status q4 = Running)"
    unfolding iss by auto
qed

theorem stop_vm_graceful_escalates_witness:
  "fst (poll (plain True) (scripted True) ''Fedora39'' ''qemu:///system'' 0 1
          \<lparr>world = [exits 0 ''running\<newline>'', exits 0 ''running\<newline>'', exits 0 [], exits 0 ''shut off\<newline>''], now = 0,
        trace = [Spawn [''virsh'', ''-c'', ''qemu:///system'', ''domstate'', ''Fedora39''],
                 Spawn [''virsh'', ''-c'', ''qemu:///system'', ''shutdown'', ''Fedora39'']]\<rparr>) = False \<and>
   stop_vm (plain True) (scripted True) ''Fedora39'' ''qemu:///system'' False 1
       (init [exits 0 ''running\<newline>'', exits 0 [], exits 0 ''running\<newline>'', exits 0 ''running\<newline>'', exits 0 [], exits 0 ''shut off\<newline>'']) =
     (True,
      \<lparr>world = [], now = 6 / 5,
        trace = [Spawn [''virsh'', ''-c'', ''qemu:///system'', ''domstate'', ''Fedora39''],
                 Spawn [''virsh'', ''-c'', ''qemu:///system'', ''shutdown'', ''Fedora39''],
                 Spawn [''virsh'', ''-c'', ''qemu:///system'', ''domstate'', ''Fedora39''],
                 Sleep 1,
                 Spawn [''virsh'', ''-c'', ''qemu:///system'', ''domstate'', ''Fedora39''],
                 Spawn [''virsh'', ''-c'', ''qemu:///system'', ''destroy'', ''Fedora39''],
                 Sleep (1 / 5),
                 Spawn [''virsh'', ''-c'', ''qemu:///system'', ''domstate'', ''Fedora39'']]\<rparr>) \<and>
   fst (poll (plain True) (scripted True) ''Fedora39'' ''qemu'' 0 1
          \<lparr>world = [exits 0 ''4242\<newline>'', exits 0 ''4242\<newline>'', exits 1 []], now = 0,
        trace = [Spawn [''pgrep'', ''-f'', ''qemu.*Fedora39''],
                 Spawn [''pgrep'', ''-f'', ''qemu.*Fedora39''],
                 Kill 4242 SIGTERM]\<rparr>) = False \<and>
   stop_vm (plain True) (scripted True) ''Fedora39'' ''qemu'' False 1
       (init [exits 0 ''4242\<newline>'', exits 0 ''4242\<newline>'', exits 0 ''4242\<newline>'', exits 0 ''4242\<newline>'', exits 1 []]) =
     (True,
      \<lparr>world = [], now = 2,
        trace = [Spawn [''pgrep'', ''-f'', ''qemu.*Fedora39''],
                 Spawn [''pgrep'', ''-f'', ''qemu.*Fedora39''],
                 Kill 4242 SIGTERM,
                 Spawn [''pgrep'', ''-f'', ''qemu.*Fedora39''],
                 Sleep 1,
                 Spawn [''pgrep'', ''-f'', ''qemu.*Fedora39''],
                 Kill 4242 SIGKILL,
                 Sleep 1,
                 Spawn [''pgrep'', ''-f'', ''qemu.*Fedora39'']]\<rparr>) \<and>
   fst (poll (plain True) (scripted True) ''Fedora39'' ''qemu'' 0 1
          \<lparr>world = [exits 0 ''4242\<newline>'', exits 1 [], exits 1 []], now = 0,
        trace = [Spawn [''pgrep'', ''-f'', ''qemu.*Fedora39''],
                 Spawn [''pgrep'', ''-f'', ''qemu.*Fedora39''],
                 Kill 4242 SIGTERM]\<rparr>) = False \<and>
   stop_vm (plain True) (scripted True) ''Fedora39'' ''qemu'' False 1
       (init [exits 0 ''4242\<newline>'', exits 0 ''4242\<newline>'', exits 0 ''4242\<newline>'', exits 1 [], exits 1 []]) =
     (True,
      \<lparr>world = [], now = 2,
        trace = [Spawn [''pgrep'', ''-f'', ''qemu.*Fedora39''],
                 Spawn [''pgrep'', ''-f'', ''qemu.*Fedora39''],
                 Kill 4242 SIGTERM,
                 Spawn [''pgrep'', ''-f'', ''qemu.*Fedora39''],
                 Sleep 1,
                 Spawn [''pgrep'', ''-f'', ''qemu.*Fedora39''],
                 Sleep 1,
                 Spawn [''pgrep'', ''-f'', ''qemu.*Fedora39'']]\<rparr>) \<and>
   Kill 4242 SIGKILL \<notin> set (issued (init [exits 0 ''4242\<newline>'', exits 0 ''4242\<newline>'', exits 0 ''4242\<newline>'', exits 1 [], exits 1 []])
      (snd (stop_vm (plain True) (scripted True) ''Fedora39'' ''qemu'' False 1
         (init [exits 0 ''4242\<newline>'', exits 0 ''4242\<newline>'', exits 0 ''4242\<newline>'', exits 1 [], exits 1 []]))))"
proof -
  have d0: "get_vm_status (plain True) (scripted True) ''Fedora39'' ''qemu:///system'' (init [exits 0 ''running\<newline>'', exits 0 [], exits 0 ''running\<newline>'', exits 0 ''running\<newline>'', exits 0 [], exits 0 ''shut off\<newline>'']) =
      (\<lparr>r_status = Running, r_type = Some Libvirt, r_uri = Some ''qemu:///system''\<rparr>,
       \<lparr>world = [exits 0 [], exits 0 ''running\<newline>'', exits 0 ''running\<newline>'', exits 0 [], exits 0 ''shut off\<newline>''], now = 0,
        trace = [Spawn [''virsh'', ''-c'', ''qemu:///system'', ''domstate'', ''Fedora39'']]\<rparr>)"
    by code_simp
  have d1: "run_command (plain True) (scripted True) [''virsh'', ''-c'', ''qemu:///system'', ''shutdown'', ''Fedora39'']
       \<lparr>world = [exits 0 [], exits 0 ''running\<newline>'', exits 0 ''running\<newline>'', exits 0 [], exits 0 ''shut off\<newline>''], now = 0,
        trace = [Spawn [''virsh'', ''-c'', ''qemu:///system'', ''domstate'', ''Fedora39'']]\<rparr> =
      (exits 0 [],
       \<lparr>world = [exits 0 ''running\<newline>'', exits 0 ''running\<newline>'', exits 0 [], exits 0 ''shut off\<newline>''], now = 0,
        trace = [Spawn [''virsh'', ''-c'', ''qemu:///system'', ''domstate'', ''Fedora39''],
                 Spawn [''virsh'', ''-c'', ''qemu:///system'', ''shutdown'', ''Fedora39'']]\<rparr>)"
    by code_simp
  have ok: "succeeded (exits 0 [])" by code_simp
  have d2: "poll (plain True) (scripted True) ''Fedora39'' ''qemu:///system''
       (now \<lparr>world = [exits 0 ''running\<newline>'', exits 0 ''running\<newline>'', exits 0 [], exits 0 ''shut off\<newline>''], now = 0,
        trace = [Spawn [''virsh'', ''-c'', ''qemu:///system'', ''domstate'', ''Fedora39''],
                 Spawn [''virsh'', ''-c'', ''qemu:///system'', ''shutdown'', ''Fedora39'']]\<rparr>) 1
       \<lparr>world = [exits 0 ''running\<newline>'', exits 0 ''running\<newline>'', exits 0 [], exits 0 ''shut off\<newline>''], now = 0,
        trace = [Spawn [''virsh'', ''-c'', ''qemu:///system'', ''domstate'', ''Fedora39''],
                 Spawn [''virsh'', ''-c'', ''qemu:///system'', ''shutdown'', ''Fedora39'']]\<rparr> =
      (False,
       \<lparr>world = [exits 0 ''running\<newline>'', exits 0 [], exits 0 ''shut off\<newline>''], now = 1,
        trace = [Spawn [''virsh'', ''-c'', ''qemu:///system'', ''domstate'', ''Fedora39''],
                 Spawn [''virsh'', ''-c'', ''qemu:///system'', ''shutdown'', ''Fedora39''],
                 Spawn [''virsh'', ''-c'', ''qemu:///system'', ''domstate'', ''Fedora39''],
                 Sleep 1]\<rparr>)"
    by code_simp
  have d3: "get_vm_status (plain True) (scripted True) ''Fedora39'' ''qemu:///system''
       \<lparr>world = [exits 0 ''running\<newline>'', exits 0 [], exits 0 ''shut off\<newline>''], now = 1,
        trace = [Spawn [''virsh'', ''-c'', ''qemu:///system'', ''domstate'', ''Fedora39''],
                 Spawn [''virsh'', ''-c'', ''qemu:///system'', ''shutdown'', ''Fedora39''],
                 Spawn [''virsh'', ''-c'', ''qemu:///system'', ''domstate'', ''Fedora39''],
                 Sleep 1]\<rparr> =
      (\<lparr>r_status = Running, r_type = Some Libvirt, r_uri = Some ''qemu:///system''\<rparr>,
       \<lparr>world = [exits 0 [], exits 0 ''shut off\<newline>''], now = 1,
        trace = [Spawn [''virsh'', ''-c'', ''qemu:///system'', ''domstate'', ''Fedora39''],
                 Spawn [''virsh'', ''-c'', ''qemu:///system'', ''shutdown'', ''Fedora39''],
                 Spawn [''virsh'', ''-c'', ''qemu:///system'', ''domstate'', ''Fedora39''],
                 Sleep 1,
                 Spawn [''virsh'', ''-c'', ''qemu:///system'', ''domstate'', ''Fedora39'']]\<rparr>)"
    by code_simp
  have d4: "snd (run_command (plain True) (scripted True) [''virsh'', ''-c'', ''qemu:///system'', ''destroy'', ''Fedora39'']
       \<lparr>world = [exits 0 [], exits 0 ''shut off\<newline>''], now = 1,
        trace = [Spawn [''virsh'', ''-c'', ''qemu:///system'', ''domstate'', ''Fedora39''],
                 Spawn [''virsh'', ''-c'', ''qemu:///system'', ''shutdown'', ''Fedora39''],
                 Spawn [''virsh'', ''-c'', ''qemu:///system'', ''domstate'', ''Fedora39''],
                 Sleep 1,
                 Spawn [''virsh'', ''-c'', ''qemu:///system'', ''domstate'', ''Fedora39'']]\<rparr>) =
       \<lparr>world = [exits 0 ''shut off\<newline>''], now = 1,
        trace = [Spawn [''virsh'', ''-c'', ''qemu:///system'', ''domstate'', ''Fedora39''],
                 Spawn [''virsh'', ''-c'', ''qemu:///system'', ''shutdown'', ''Fedora39''],
                 Spawn [''virsh'', ''-c'', ''qemu:///system'', ''domstate'', ''Fedora39''],
                 Sleep 1,
                 Spawn [''virsh'', ''-c'', ''qemu:///system'', ''domstate'', ''Fedora39''],
                 Spawn [''virsh'', ''-c'', ''qemu:///system'', ''destroy'', ''Fedora39'']]\<rparr>"
    by code_simp
  have d5: "settle (plain True) (scripted True) ''Fedora39'' ''qemu:///system'' (1 / 5) Stopped
       \<lparr>world = [exits 0 ''shut off\<newline>''], now = 1,
        trace = [Spawn [''virsh'', ''-c'', ''qemu:///system'', ''domstate'', ''Fedora39''],
                 Spawn [''virsh'', ''-c'', ''qemu:///system'', ''shutdown'', ''Fedora39''],
                 Spawn [''virsh'', ''-c'', ''qemu:///system'', ''domstate'', ''Fedora39''],
                 Sleep 1,
                 Spawn [''virsh'', ''-c'', ''qemu:///system'', ''domstate'', ''Fedora39''],
                 Spawn [''virsh'', ''-c'', ''qemu:///system'', ''destroy'', ''Fedora39'']]\<rparr> =
      (True,
       \<lparr>world = [], now = 6 / 5,
        trace = [Spawn [''virsh'', ''-c'', ''qemu:///system'', ''domstate'', ''Fedora39''],
                 Spawn [''virsh'', ''-c'', ''qemu:///system'', ''shutdown'', ''Fedora39''],
                 Spawn [''virsh'', ''-c'', ''qemu:///system'', ''domstate'', ''Fedora39''],
                 Sleep 1,
                 Spawn [''virsh'', ''-c'', ''qemu:///system'', ''domstate'', ''Fedora39''],
                 Spawn [''virsh'', ''-c'', ''qemu:///system'', ''destroy'', ''Fedora39''],
                 Sleep (1 / 5),
                 Spawn [''virsh'', ''-c'', ''qemu:///system'', ''domstate'', ''Fedora39'']]\<rparr>)"
    by code_simp
  have q0: "get_vm_status (plain True) (scripted True) ''Fedora39'' ''qemu'' (init [exits 0 ''4242\<newline>'', exits 0 ''4242\<newline>'', exits 0 ''4242\<newline>'', exits 0 ''4242\<newline>'', exits 1 []]) =
      (\<lparr>r_status = Running, r_type = Some Qemu, r_uri = None\<rparr>,
       \<lparr>world = [exits 0 ''4242\<newline>'', exits 0 ''4242\<newline>'', exits 0 ''4242\<newline>'', exits 1 []], now = 0,
        trace = [Spawn [''pgrep'', ''-f'', ''qemu.*Fedora39'']]\<rparr>)"
    by code_simp
  have q1: "run_command (plain True) (scripted True) [''pgrep'', ''-f'', ''qemu.*'' @ ''Fedora39'']
       \<lparr>world = [exits 0 ''4242\<newline>'', exits 0 ''4242\<newline>'', exits 0 ''4242\<newline>'', exits 1 []], now = 0,
        trace = [Spawn [''pgrep'', ''-f'', ''qemu.*Fedora39'']]\<rparr> =
      (Some \<lparr>exit_code = 0, stdout = Some ''4242\<newline>''\<rparr>,
       \<lparr>world = [exits 0 ''4242\<newline>'', exits 0 ''4242\<newline>'', exits 1 []], now = 0,
        trace = [Spawn [''pgrep'', ''-f'', ''qemu.*Fedora39''],
                 Spawn [''pgrep'', ''-f'', ''qemu.*Fedora39'']]\<rparr>)"
    by code_simp
  have q2: "kill (scripted True) 4242 SIGTERM
       \<lparr>world = [exits 0 ''4242\<newline>'', exits 0 ''4242\<newline>'', exits 1 []], now = 0,
        trace = [Spawn [''pgrep'', ''-f'', ''qemu.*Fedora39''],
                 Spawn [''pgrep'', ''-f'', ''qemu.*Fedora39'']]\<rparr> =
      (True,
       \<lparr>world = [exits 0 ''4242\<newline>'', exits 0 ''4242\<newline>'', exits 1 []], now = 0,
        trace = [Spawn [''pgrep'', ''-f'', ''qemu.*Fedora39''],
                 Spawn [''pgrep'', ''-f'', ''qemu.*Fedora39''],
                 Kill 4242 SIGTERM]\<rparr>)"
    by code_simp
  have q3: "poll (plain True) (scripted True) ''Fedora39'' ''qemu''
       (now \<lparr>world = [exits 0 ''4242\<newline>'', exits 0 ''4242\<newline>'', exits 1 []], now = 0,
        trace = [Spawn [''pgrep'', ''-f'', ''qemu.*Fedora39''],
                 Spawn [''pgrep'', ''-f'', ''qemu.*Fedora39''],
                 Kill 4242 SIGTERM]\<rparr>) 1
       \<lparr>world = [exits 0 ''4242\<newline>'', exits 0 ''4242\<newline>'', exits 1 []], now = 0,
        trace = [Spawn [''pgrep'', ''-f'', ''qemu.*Fedora39''],
                 Spawn [''pgrep'', ''-f'', ''qemu.*Fedora39''],
                 Kill 4242 SIGTERM]\<rparr> =
      (False,
       \<lparr>world = [exits 0 ''4242\<newline>'', exits 1 []], now = 1,
        trace = [Spawn [''pgrep'', ''-f'', ''qemu.*Fedora39''],
                 Spawn [''pgrep'', ''-f'', ''qemu.*Fedora39''],
                 Kill 4242 SIGTERM,
                 Spawn [''pgrep'', ''-f'', ''qemu.*Fedora39''],
                 Sleep 1]\<rparr>)"
    by code_simp
  have q4: "get_vm_status (plain True) (scripted True) ''Fedora39'' ''qemu''
       \<lparr>world = [exits 0 ''4242\<newline>'', exits 1 []], now = 1,
        trace = [Spawn [''pgrep'', ''-f'', ''qemu.*Fedora39''],
                 Spawn [''pgrep'', ''-f'', ''qemu.*Fedora39''],
                 Kill 4242 SIGTERM,
                 Spawn [''pgrep'', ''-f'', ''qemu.*Fedora39''],
                 Sleep 1]\<rparr> =
      (\<lparr>r_status = Running, r_type = Some Qemu, r_uri = None\<rparr>,
       \<lparr>world = [exits 1 []], now = 1,
        trace = [Spawn [''pgrep'', ''-f'', ''qemu.*Fedora39''],
                 Spawn [''pgrep'', ''-f'', ''qemu.*Fedora39''],
                 Kill 4242 SIGTERM,
                 Spawn [''pgrep'', ''-f'', ''qemu.*Fedora39''],
                 Sleep 1,
                 Spawn [''pgrep'', ''-f'', ''qemu.*Fedora39'']]\<rparr>)"
    by code_simp
  have q5: "kill (scripted True) 4242 SIGKILL
       \<lparr>world = [exits 1 []], now = 1,
        trace = [Spawn [''pgrep'', ''-f'', ''qemu.*Fedora39''],
                 Spawn [''pgrep'', ''-f'', ''qemu.*Fedora39''],
                 Kill 4242 SIGTERM,
                 Spawn [''pgrep'', ''-f'', ''qemu.*Fedora39''],
                 Sleep 1,
                 Spawn [''pgrep'', ''-f'', ''qemu.*Fedora39'']]\<rparr> =
      (True,
       \<lparr>world = [exits 1 []], now = 1,
        trace = [Spawn [''pgrep'', ''-f'', ''qemu.*Fedora39''],
                 Spawn [''pgrep'', ''-f'', ''qemu.*Fedora39''],
                 Kill 4242 SIGTERM,
                 Spawn [''pgrep'', ''-f'', ''qemu.*Fedora39''],
                 Sleep 1,
                 Spawn [''pgrep'', ''-f'', ''qemu.*Fedora39''],
                 Kill 4242 SIGKILL]\<rparr>)"
    by code_simp
  have q6: "settle (plain True) (scripted True) ''Fedora39'' ''qemu'' 1 Stopped
       \<lparr>world = [exits 1 []], now = 1,
        trace = [Spawn [''pgrep'', ''-f'', ''qemu.*Fedora39''],
                 Spawn [''pgrep'', ''-f'', ''qemu.*Fedora39''],
                 Kill 4242 SIGTERM,
                 Spawn [''pgrep'', ''-f'', ''qemu.*Fedora39''],
                 Sleep 1,
                 Spawn [''pgrep'', ''-f'', ''qemu.*Fedora39''],
                 Kill 4242 SIGKILL]\<rparr> =
      (True,
       \<lparr>world = [], now = 2,
        trace = [Spawn [''pgrep'', ''-f'', ''qemu.*Fedora39''],
                 Spawn [''pgrep'', ''-f'', ''qemu.*Fedora39''],
                 Kill 4242 SIGTERM,
                 Spawn [''pgrep'', ''-f'', ''qemu.*Fedora39''],
                 Sleep 1,
                 Spawn [''pgrep'', ''-f'', ''qemu.*Fedora39''],
                 Kill 4242 SIGKILL,
                 Sleep 1,
                 Spawn [''pgrep'', ''-f'', ''qemu.*Fedora39'']]\<rparr>)"
    by code_simp
  have n0: "get_vm_status (plain True) (scripted True) ''Fedora39'' ''qemu'' (init [exits 0 ''4242\<newline>'', exits 0 ''4242\<newline>'', exits 0 ''4242\<newline>'', exits 1 [], exits 1 []]) =
      (\<lparr>r_status = Running, r_type = Some Qemu, r_uri = None\<rparr>,
       \<lparr>world = [exits 0 ''4242\<newline>'', exits 0 ''4242\<newline>'', exits 1 [], exits 1 []], now = 0,
        trace = [Spawn [''pgrep'', ''-f'', ''qemu.*Fedora39'']]\<rparr>)"
    by code_simp
  have n1: "run_command (plain True) (scripted True) [''pgrep'', ''-f'', ''qemu.*'' @ ''Fedora39'']
       \<lparr>world = [exits 0 ''4242\<newline>'', exits 0 ''4242\<newline>'', exits 1 [], exits 1 []], now = 0,
        trace = [Spawn [''pgrep'', ''-f'', ''qemu.*Fedora39'']]\<rparr> =
      (Some \<lparr>exit_code = 0, stdout = Some ''4242\<newline>''\<rparr>,
       \<lparr>world = [exits 0 ''4242\<newline>'', exits 1 [], exits 1 []], now = 0,
        trace = [Spawn [''pgrep'', ''-f'', ''qemu.*Fedora39''],
                 Spawn [''pgrep'', ''-f'', ''qemu.*Fedora39'']]\<rparr>)"
    by code_simp
  have n2: "kill (scripted True) 4242 SIGTERM
       \<lparr>world = [exits 0 ''4242\<newline>'', exits 1 [], exits 1 []], now = 0,
        trace = [Spawn [''pgrep'', ''-f'', ''qemu.*Fedora39''],
                 Spawn [''pgrep'', ''-f'', ''qemu.*Fedora39'']]\<rparr> =
      (True,
       \<lparr>world = [exits 0 ''4242\<newline>'', exits 1 [], exits 1 []], now = 0,
        trace = [Spawn [''pgrep'', ''-f'', ''qemu.*Fedora39''],
                 Spawn [''pgrep'', ''-f'', ''qemu.*Fedora39''],
                 Kill 4242 SIGTERM]\<rparr>)"
    by code_simp
  have n3: "poll (plain True) (scripted True) ''Fedora39'' ''qemu''
       (now \<lparr>world = [exits 0 ''4242\<newline>'', exits 1 [], exits 1 []], now = 0,
        trace = [Spawn [''pgrep'', ''-f'', ''qemu.*Fedora39''],
                 Spawn [''pgrep'', ''-f'', ''qemu.*Fedora39''],
                 Kill 4242 SIGTERM]\<rparr>) 1
       \<lparr>world = [exits 0 ''4242\<newline>'', exits 1 [], exits 1 []], now = 0,
        trace = [Spawn [''pgrep'', ''-f'', ''qemu.*Fedora39''],
                 Spawn [''pgrep'', ''-f'', ''qemu.*Fedora39''],
                 Kill 4242 SIGTERM]\<rparr> =
      (False,
       \<lparr>world = [exits 1 [], exits 1 []], now = 1,
        trace = [Spawn [''pgrep'', ''-f'', ''qemu.*Fedora39''],
                 Spawn [''pgrep'', ''-f'', ''qemu.*Fedora39''],
                 Kill 4242 SIGTERM,
                 Spawn [''pgrep'', ''-f'', ''qemu.*Fedora39''],
                 Sleep 1]\<rparr>)"
    by code_simp
  have n4: "get_vm_status (plain True) (scripted True) ''Fedora39'' ''qemu''
       \<lparr>world = [exits 1 [], exits 1 []], now = 1,
        trace = [Spawn [''pgrep'', ''-f'', ''qemu.*Fedora39''],
                 Spawn [''pgrep'', ''-f'', ''qemu.*Fedora39''],
                 Kill 4242 SIGTERM,
                 Spawn [''pgrep'', ''-f'', ''qemu.*Fedora39''],
                 Sleep 1]\<rparr> =
      (\<lparr>r_status = Stopped, r_type = Some Qemu, r_uri = None\<rparr>,
       \<lparr>world = [exits 1 []], now = 1,
        trace = [Spawn [''pgrep'', ''-f'', ''qemu.*Fedora39''],
                 Spawn [''pgrep'', ''-f'', ''qemu.*Fedora39''],
                 Kill 4242 SIGTERM,
                 Spawn [''pgrep'', ''-f'', ''qemu.*Fedora39''],
                 Sleep 1,
                 Spawn [''pgrep'', ''-f'', ''qemu.*Fedora39'']]\<rparr>)"
    by code_simp
  have n5: "kill (scripted True) 4242 SIGKILL
       \<lparr>world = [exits 1 []], now = 1,
        trace = [Spawn [''pgrep'', ''-f'', ''qemu.*Fedora39''],
                 Spawn [''pgrep'', ''-f'', ''qemu.*Fedora39''],
                 Kill 4242 SIGTERM,
                 Spawn [''pgrep'', ''-f'', ''qemu.*Fedora39''],
                 Sleep 1,
                 Spawn [''pgrep'', ''-f'', ''qemu.*Fedora39'']]\<rparr> =
      (True,
       \<lparr>world = [exits 1 []], now = 1,
        trace = [Spawn [''pgrep'', ''-f'', ''qemu.*Fedora39''],
                 Spawn [''pgrep'', ''-f'', ''qemu.*Fedora39''],
                 Kill 4242 SIGTERM,
                 Spawn [''pgrep'', ''-f'', ''qemu.*Fedora39''],
                 Sleep 1,
                 Spawn [''pgrep'', ''-f'', ''qemu.*Fedora39''],
                 Kill 4242 SIGKILL]\<rparr>)"
    by code_simp
  have n6: "settle (plain True) (scripted True) ''Fedora39'' ''qemu'' 1 Stopped
       \<lparr>world = [exits 1 []], now = 1,
        trace = [Spawn [''pgrep'', ''-f'', ''qemu.*Fedora39''],
                 Spawn [''pgrep'', ''-f'', ''qemu.*Fedora39''],
                 Kill 4242 SIGTERM,
                 Spawn [''pgrep'', ''-f'', ''qemu.*Fedora39''],
                 Sleep 1,
                 Spawn [''pgrep'', ''-f'', ''qemu.*Fedora39'']]\<rparr> =
      (True,
       \<lparr>world = [], now = 2,
        trace = [Spawn [''pgrep'', ''-f'', ''qemu.*Fedora39''],
                 Spawn [''pgrep'', ''-f'', ''qemu.*Fedora39''],
                 Kill 4242 SIGTERM,
                 Spawn [''pgrep'', ''-f'', ''qemu.*Fedora39''],
                 Sleep 1,
                 Spawn [''pgrep'', ''-f'', ''qemu.*Fedora39''],
                 Sleep 1,
                 Spawn [''pgrep'', ''-f'', ''qemu.*Fedora39'']]\<rparr>)"
    by code_simp
  have pid: "py_int (py_strip ''4242\<newline>'') = Some 4242" by code_simp
  have u: "''qemu:///system'' \<noteq> ''qemu''" by simp
  have av: "libvirt_available (plain True)" by (simp add: plain_def)
  have ns: "r_status \<lparr>r_status = Running, r_type = Some Libvirt, r_uri = Some ''qemu:///system''\<rparr> \<noteq> Stopped" "r_status \<lparr>r_status = Running, r_type = Some Qemu, r_uri = None\<rparr> \<noteq> Stopped" by simp_all
  have e: "exit_code \<lparr>exit_code = 0, stdout = Some ''4242\<newline>''\<rparr> = 0"
    and o: "stdout \<lparr>exit_code = 0, stdout = Some ''4242\<newline>''\<rparr> = Some ''4242\<newline>''"
    by simp_all
  note inst_d = stop_vm_graceful_escalates
    [where C = "(plain True)" and E = "(scripted True)" and nm = "''Fedora39''" and uri = "''qemu:///system''" and timeout = 1
       and s = "(init [exits 0 ''running\<newline>'', exits 0 [], exits 0 ''running\<newline>'', exits 0 ''running\<newline>'', exits 0 [], exits 0 ''shut off\<newline>''])",
     THEN conjunct1, rule_format,
     OF conjI [OF u conjI [OF av conjI [OF d0 conjI [OF ns(1) conjI [OF d1 conjI [OF ok
       conjI [OF d2 d3]]]]]]]]
  have daemon: "stop_vm (plain True) (scripted True) ''Fedora39'' ''qemu:///system'' False 1 (init [exits 0 ''running\<newline>'', exits 0 [], exits 0 ''running\<newline>'', exits 0 ''running\<newline>'', exits 0 [], exits 0 ''shut off\<newline>'']) =
      (True,
       \<lparr>world = [], now = 6 / 5,
        trace = [Spawn [''virsh'', ''-c'', ''qemu:///system'', ''domstate'', ''Fedora39''],
                 Spawn [''virsh'', ''-c'', ''qemu:///system'', ''shutdown'', ''Fedora39''],
                 Spawn [''virsh'', ''-c'', ''qemu:///system'', ''domstate'', ''Fedora39''],
                 Sleep 1,
                 Spawn [''virsh'', ''-c'', ''qemu:///system'', ''domstate'', ''Fedora39''],
                 Spawn [''virsh'', ''-c'', ''qemu:///system'', ''destroy'', ''Fedora39''],
                 Sleep (1 / 5),
                 Spawn [''virsh'', ''-c'', ''qemu:///system'', ''domstate'', ''Fedora39'']]\<rparr>)"
    using inst_d [THEN conjunct1] by (simp add: d4 d5)
  note inst_q = stop_vm_graceful_escalates
    [where C = "(plain True)" and E = "(scripted True)" and nm = "''Fedora39''" and timeout = 1
       and s = "(init [exits 0 ''4242\<newline>'', exits 0 ''4242\<newline>'', exits 0 ''4242\<newline>'', exits 0 ''4242\<newline>'', exits 1 []])",
     THEN conjunct2, rule_format,
     OF conjI [OF q0 conjI [OF ns(2) conjI [OF q1 conjI [OF e conjI [OF o conjI [OF pid
       conjI [OF q2 conjI [OF q3 conjI [OF q4 q5]]]]]]]]]]
  have direct: "stop_vm (plain True) (scripted True) ''Fedora39'' ''qemu'' False 1 (init [exits 0 ''4242\<newline>'', exits 0 ''4242\<newline>'', exits 0 ''4242\<newline>'', exits 0 ''4242\<newline>'', exits 1 []]) =
      (True,
       \<lparr>world = [], now = 2,
        trace = [Spawn [''pgrep'', ''-f'', ''qemu.*Fedora39''],
                 Spawn [''pgrep'', ''-f'', ''qemu.*Fedora39''],
                 Kill 4242 SIGTERM,
                 Spawn [''pgrep'', ''-f'', ''qemu.*Fedora39''],
                 Sleep 1,
                 Spawn [''pgrep'', ''-f'', ''qemu.*Fedora39''],
                 Kill 4242 SIGKILL,
                 Sleep 1,
                 Spawn [''pgrep'', ''-f'', ''qemu.*Fedora39'']]\<rparr>)"
    using inst_q [THEN conjunct1] by (simp add: q6)
  note inst_n = stop_vm_graceful_escalates
    [where C = "(plain True)" and E = "(scripted True)" and nm = "''Fedora39''" and timeout = 1
       and s = "(init [exits 0 ''4242\<newline>'', exits 0 ''4242\<newline>'', exits 0 ''4242\<newline>'', exits 1 [], exits 1 []])",
     THEN conjunct2, rule_format,
     OF conjI [OF n0 conjI [OF ns(2) conjI [OF n1 conjI [OF e conjI [OF o conjI [OF pid
       conjI [OF n2 conjI [OF n3 conjI [OF n4 n5]]]]]]]]]]
  have gone: "stop_vm (plain True) (scripted True) ''Fedora39'' ''qemu'' False 1 (init [exits 0 ''4242\<newline>'', exits 0 ''4242\<newline>'', exits 0 ''4242\<newline>'', exits 1 [], exits 1 []]) =
      (True,
       \<lparr>world = [], now = 2,
        trace = [Spawn [''pgrep'', ''-f'', ''qemu.*Fedora39''],
                 Spawn [''pgrep'', ''-f'', ''qemu.*Fedora39''],
                 Kill 4242 SIGTERM,
                 Spawn [''pgrep'', ''-f'', ''qemu.*Fedora39''],
                 Sleep 1,
                 Spawn [''pgrep'', ''-f'', ''qemu.*Fedora39''],
                 Sleep 1,
                 Spawn [''pgrep'', ''-f'', ''qemu.*Fedora39'']]\<rparr>)"
    using inst_n [THEN conjunct1] by (simp add: n6)
  have quiet: "Kill 4242 SIGKILL \<notin> set (issued (init [exits 0 ''4242\<newline>'', exits 0 ''4242\<newline>'', exits 0 ''4242\<newline>'', exits 1 [], exits 1 []])
      (snd (stop_vm (plain True) (scripted True) ''Fedora39'' ''qemu'' False 1
         (init [exits 0 ''4242\<newline>'', exits 0 ''4242\<newline>'', exits 0 ''4242\<newline>'', exits 1 [], exits 1 []]))))"
    using inst_n [THEN conjunct2] by simp
  show ?thesis
    using daemon direct gone quiet d2 q3 n3 by simp
qed

text \<open>
  A daemon that answers \<^verbatim>\<open>in shutdown\<close> to every state query: the guest is never
  seen \<open>Stopped\<close>, the status after the loop is \<open>Unknown\<close>, and no \<^verbatim>\<open>destroy\<close>
  is issued.
\<close>

theorem stop_vm_graceful_unknown_counterexample:
  "fst (poll (plain True) (steady (exits 0 ''in shutdown\<newline>'') True) ''Fedora39''
          ''qemu:///system'' 0 3
          \<lparr>world = (), now = 0,
            trace = [Spawn [''virsh'', ''-c'', ''qemu:///system'', ''domstate'', ''Fedora39''],
                     Spawn [''virsh'', ''-c'', ''qemu:///system'', ''shutdown'', ''Fedora39'']]\<rparr>)
     = False \<and>
   stop_vm (plain True) (steady (exits 0 ''in shutdown\<newline>'') True) ''Fedora39''
      ''qemu:///system'' False 3 (init ()) =
     (False,
      \<lparr>world = (), now = 16 / 5,
        trace = [Spawn [''virsh'', ''-c'', ''qemu:///system'', ''domstate'', ''Fedora39''],
                 Spawn [''virsh'', ''-c'', ''qemu:///system'', ''shutdown'', ''Fedora39''],
                 Spawn [''virsh'', ''-c'', ''qemu:///system'', ''domstate'', ''Fedora39''],
                 Sleep 1,
                 Spawn [''virsh'', ''-c'', ''qemu:///system'', ''domstate'', ''Fedora39''],
                 Sleep 1,
                 Spawn [''virsh'', ''-c'', ''qemu:///system'', ''domstate'', ''Fedora39''],
                 Sleep 1,
                 Spawn [''virsh'', ''-c'', ''qemu:///system'', ''domstate'', ''Fedora39''],
                 Sleep (1 / 5),
                 Spawn [''virsh'', ''-c'', ''qemu:///system'', ''domstate'', ''Fedora39'']]\<rparr>) \<and>
   Spawn [''virsh'', ''-c'', ''qemu:///system'', ''destroy'', ''Fedora39'']
     \<notin> set (trace (snd (stop_vm (plain True) (steady (exits 0 ''in shutdown\<newline>'') True)
                 ''Fedora39'' ''qemu:///system'' False 3 (init ()))))"
  by code_simp

subsection \<open>A failing list sub-command\<close>



















end
